theory Spec2Isabelle
  imports Complex_Main
begin

section \<open>Opal custom tools for Optimizely: a shallow embedding\<close>

text \<open>
  The repository holds a handful of independent request handlers (TypeScript): each validates
  its parameters, assembles a request, makes one outbound HTTP call and normalises the
  response. This theory embeds the handlers of \<^verbatim>\<open>src/tools/*.ts\<close> and their near-duplicate
  variants, and proves the properties the specification states about them.

  Conventions of the embedding.
  \<^item> A JavaScript string is a \<^typ>\<open>string\<close>; each \<^typ>\<open>char\<close> stands for one code unit
    below 256.
  \<^item> A JavaScript number is an IEEE-754 double. Its value is carried as a \<^typ>\<open>rat\<close> (an
    \<^typ>\<open>int\<close> where the code holds an integer), and every operation of the code that
    produces a number rounds its exact result to the nearest double. A value of magnitude
    \<open>2\<^sup>1\<^sup>0\<^sup>2\<^sup>4\<close> or more stands for \<^verbatim>\<open>Infinity\<close>, which \<^verbatim>\<open>JSON.stringify\<close> writes as
    \<^verbatim>\<open>null\<close>. \<^verbatim>\<open>NaN\<close> as the result of a failed \<^verbatim>\<open>parseInt\<close> or of an invalid \<^verbatim>\<open>Date\<close> is
    \<^term>\<open>None\<close>; on the paths followed here no other operation yields \<^verbatim>\<open>NaN\<close>.
  \<^item> An optional property (\<^verbatim>\<open>x?: T\<close>, possibly \<^verbatim>\<open>undefined\<close>) is an \<^typ>\<open>'a option\<close>.
  \<^item> A thrown \<^verbatim>\<open>Error\<close> is the \<^term>\<open>Inl\<close> branch of a sum.
\<close>

subsection \<open>Characters, digits and decimal numerals\<close>

definition is_digit :: "char \<Rightarrow> bool" where
  "is_digit c = (c \<in> set ''0123456789'')"

definition digit_val :: "char \<Rightarrow> nat" where
  "digit_val c = of_char c - 48"

definition digit_char :: "nat \<Rightarrow> char" where
  "digit_char n = ''0123456789'' ! n"

definition nat_of_digits :: "string \<Rightarrow> nat" where
  "nat_of_digits ds = foldl (\<lambda>a c. 10 * a + digit_val c) 0 ds"

text \<open>The decimal numeral of an integer.\<close>

fun show_nat :: "nat \<Rightarrow> string" where
  "show_nat n = (if n < 10 then [digit_char n] else show_nat (n div 10) @ [digit_char (n mod 10)])"

declare show_nat.simps [simp del]

definition show_int :: "int \<Rightarrow> string" where
  "show_int i = (if i < 0 then CHR ''-'' # show_nat (nat (- i)) else show_nat (nat i))"

subsection \<open>Numbers\<close>

text \<open>
  A finite double is \<open>\<plusminus> m \<cdot> 2\<^sup>k\<close> with a significand \<open>m < 2\<^sup>5\<^sup>3\<close> and an exponent
  \<open>k \<ge> - 1074\<close>. \<open>round_double x\<close> is the double nearest to the rational \<open>x\<close>, the one with
  the even significand when \<open>x\<close> lies half way between two doubles (IEEE-754
  \<^verbatim>\<open>roundTiesToEven\<close>, the rounding of every arithmetic operation of ECMAScript and of the
  reading of a numeric literal): with \<open>2\<^sup>e \<le> |x| < 2\<^sup>e\<^sup>+\<^sup>1\<close>, the doubles around \<open>x\<close> are the
  multiples of \<open>2\<^sup>k\<close> for \<open>k = max (e - 52) (- 1074)\<close>, and \<open>|x| / 2\<^sup>k\<close> is rounded to an
  integer. The exponent has no upper bound here: a result of magnitude \<open>2\<^sup>1\<^sup>0\<^sup>2\<^sup>4\<close> or more
  stands for \<^verbatim>\<open>Infinity\<close>.
\<close>

text \<open>The number of binary digits of a positive integer.\<close>

function bitlen :: "int \<Rightarrow> int" where
  "bitlen n = (if n \<le> 0 then 0 else bitlen (n div 2) + 1)"
  by auto
termination
  by (relation "measure nat") auto

declare bitlen.simps [simp del]

text \<open>The exponent \<open>e\<close> with \<open>2\<^sup>e \<le> x < 2\<^sup>e\<^sup>+\<^sup>1\<close>, for a positive \<open>x\<close>.\<close>

definition floor_log2 :: "rat \<Rightarrow> int" where
  "floor_log2 x = (if 1 \<le> x then bitlen \<lfloor>x\<rfloor> - 1 else - bitlen (\<lceil>1 / x\<rceil> - 1))"

definition roundTiesToEven :: "rat \<Rightarrow> int" where
  "roundTiesToEven m =
     (let f = \<lfloor>m\<rfloor>; r = m - of_int f
      in if r < 1 / 2 then f else if 1 / 2 < r then f + 1 else if even f then f else f + 1)"

definition round_double :: "rat \<Rightarrow> rat" where
  "round_double x =
     (if x = 0 then 0
      else let k = max (floor_log2 \<bar>x\<bar> - 52) (- 1074)
           in sgn x * of_int (roundTiesToEven (\<bar>x\<bar> / 2 powi k)) * 2 powi k)"

text \<open>The operators \<^verbatim>\<open>*\<close>, \<^verbatim>\<open>/\<close> and \<^verbatim>\<open>-\<close> on two doubles.\<close>

definition mul_double :: "rat \<Rightarrow> rat \<Rightarrow> rat" where
  "mul_double x y = round_double (x * y)"

definition div_double :: "rat \<Rightarrow> rat \<Rightarrow> rat" where
  "div_double x y = round_double (x / y)"

definition sub_double :: "rat \<Rightarrow> rat \<Rightarrow> rat" where
  "sub_double x y = round_double (x - y)"

text \<open>
  The double that stands for a mathematical integer; it is an integer itself, and the
  same integer up to \<open>2\<^sup>5\<^sup>3\<close> in magnitude.
\<close>

definition double_int :: "int \<Rightarrow> int" where
  "double_int z = \<lfloor>round_double (of_int z)\<rfloor>"

subsection \<open>Strings\<close>

text \<open>
  White space as \<^verbatim>\<open>parseInt\<close> and \<^verbatim>\<open>String.prototype.trim\<close> see it (the code units below
  256 of ECMAScript's \<^verbatim>\<open>WhiteSpace\<close> and \<^verbatim>\<open>LineTerminator\<close>): TAB, LF, VT, FF, CR, SP, NBSP.
\<close>

definition is_ws :: "char \<Rightarrow> bool" where
  "is_ws c = (c \<in> set [CHR 0x09, CHR 0x0A, CHR 0x0B, CHR 0x0C, CHR 0x0D, CHR 0x20, CHR 0xA0])"

text \<open>
  \<^verbatim>\<open>parseInt(s, 10)\<close>: skip leading white space, read an optional sign, then the longest
  run of decimal digits; no digit at that point gives \<^verbatim>\<open>NaN\<close>, here \<^term>\<open>None\<close>. Whatever
  follows the digits is ignored. The result is a number: the double that stands for the
  integer the digits denote. (ECMAScript lets an engine approximate that integer after
  its twentieth significant digit; here, as in V8, the double is the nearest one.)
\<close>

definition parseInt :: "string \<Rightarrow> int option" where
  "parseInt s =
     (let s1 = dropWhile is_ws s;
          sgn = (case s1 of c # _ \<Rightarrow> if c = CHR ''-'' then - 1 else (1::int) | [] \<Rightarrow> 1);
          s2 = (case s1 of c # cs \<Rightarrow> if c = CHR ''-'' \<or> c = CHR ''+'' then cs else s1 | [] \<Rightarrow> []);
          z = takeWhile is_digit s2
      in if z = [] then None else Some (sgn * double_int (int (nat_of_digits z))))"

text \<open>\<^verbatim>\<open>s.trim()\<close>, \<^verbatim>\<open>s.split(",")\<close>, \<^verbatim>\<open>s.startsWith(p)\<close> and \<^verbatim>\<open>s.includes(p)\<close>.\<close>

definition trim :: "string \<Rightarrow> string" where
  "trim s = rev (dropWhile is_ws (rev (dropWhile is_ws s)))"

fun split_on :: "char \<Rightarrow> string \<Rightarrow> string list" where
  "split_on sep [] = [[]]"
| "split_on sep (c # cs) =
     (if c = sep then [] # split_on sep cs
      else (case split_on sep cs of [] \<Rightarrow> [[c]] | w # ws \<Rightarrow> (c # w) # ws))"

definition startsWith :: "string \<Rightarrow> string \<Rightarrow> bool" where
  "startsWith s p = (take (length p) s = p)"

fun includes_str :: "string \<Rightarrow> string \<Rightarrow> bool" where
  "includes_str [] p = (p = [])"
| "includes_str (c # cs) p = (startsWith (c # cs) p \<or> includes_str cs p)"

subsection \<open>JSON values\<close>

datatype json =
    JNull
  | JBool bool
  | JNum rat
  | JStr string
  | JArr "json list"
  | JObj "(string \<times> json) list"

text \<open>
  An object is its list of properties in insertion order. Assigning a property replaces the
  value of an existing key where it stands and appends a new key at the end.
\<close>

fun obj_set :: "string \<Rightarrow> 'v \<Rightarrow> (string \<times> 'v) list \<Rightarrow> (string \<times> 'v) list" where
  "obj_set k v [] = [(k, v)]"
| "obj_set k v ((k', v') # ps) = (if k' = k then (k, v) # ps else (k', v') # obj_set k v ps)"

text \<open>Object spread \<^verbatim>\<open>{...a, ...b}\<close> on property lists: the properties of \<open>b\<close> are assigned in order.\<close>

definition obj_assign :: "(string \<times> 'v) list \<Rightarrow> (string \<times> 'v) list \<Rightarrow> (string \<times> 'v) list" where
  "obj_assign a b = foldl (\<lambda>acc (k, v). obj_set k v acc) a b"

text \<open>Reading a property: \<^term>\<open>None\<close> is \<^verbatim>\<open>undefined\<close>.\<close>

definition get_prop :: "json \<Rightarrow> string \<Rightarrow> json option" where
  "get_prop j k = (case j of JObj ps \<Rightarrow> map_of ps k | _ \<Rightarrow> None)"

text \<open>Truthiness, as \<^verbatim>\<open>if (x)\<close>, \<^verbatim>\<open>!x\<close> and \<^verbatim>\<open>x || y\<close> test it.\<close>

fun truthy :: "json \<Rightarrow> bool" where
  "truthy JNull = False"
| "truthy (JBool b) = b"
| "truthy (JNum n) = (n \<noteq> 0)"
| "truthy (JStr s) = (s \<noteq> [])"
| "truthy (JArr _) = True"
| "truthy (JObj _) = True"

definition truthy_opt :: "json option \<Rightarrow> bool" where
  "truthy_opt x = (case x of None \<Rightarrow> False | Some j \<Rightarrow> truthy j)"

text \<open>A string-typed optional value is truthy when it is present and not empty.\<close>

definition present :: "string option \<Rightarrow> bool" where
  "present x = (case x of None \<Rightarrow> False | Some s \<Rightarrow> s \<noteq> [])"

text \<open>\<^verbatim>\<open>a || b\<close>: \<open>a\<close> when it is truthy, else \<open>b\<close> whatever \<open>b\<close> is.\<close>

definition or_else :: "string option \<Rightarrow> string option \<Rightarrow> string option" where
  "or_else a b = (if present a then a else b)"

subsection \<open>\<^verbatim>\<open>JSON.parse\<close>\<close>

text \<open>
  \<^verbatim>\<open>JSON.parse\<close> is read in two passes over the text, both by structural recursion: a
  lexer that is a small state machine over the characters, and a parser that keeps the
  enclosing arrays and objects on a stack. A numeric literal is read as the double nearest
  to its decimal value. A \<^verbatim>\<open>\u\<close> escape is read when it denotes a code unit below 256. The
  text of the \<^verbatim>\<open>SyntaxError\<close> message is the engine's own; the model reports one of two fixed
  messages.
\<close>

datatype token =
  TLBrace | TRBrace | TLBrack | TRBrack | TColon | TComma
  | TStr string | TNum rat | TTrue | TFalse | TNull

definition head_is :: "string \<Rightarrow> char \<Rightarrow> bool" where
  "head_is s c = (case s of [] \<Rightarrow> False | x # _ \<Rightarrow> x = c)"

text \<open>
  The number grammar: \<^verbatim>\<open>-? (0 | [1-9][0-9]*) (. [0-9]+)? ([eE] [+-]? [0-9]+)?\<close>, and the
  decimal value of a literal.
\<close>

definition parse_number :: "string \<Rightarrow> rat option" where
  "parse_number w =
     (let neg = head_is w (CHR ''-'');
          w1 = (if neg then tl w else w);
          ip = takeWhile is_digit w1;
          r1 = dropWhile is_digit w1;
          has_frac = head_is r1 (CHR ''.'');
          fp = (if has_frac then takeWhile is_digit (tl r1) else []);
          r2 = (if has_frac then dropWhile is_digit (tl r1) else r1);
          has_exp = (head_is r2 (CHR ''e'') \<or> head_is r2 (CHR ''E''));
          r3 = (if has_exp then tl r2 else r2);
          eneg = (has_exp \<and> head_is r3 (CHR ''-''));
          r4 = (if has_exp \<and> (head_is r3 (CHR ''-'') \<or> head_is r3 (CHR ''+'')) then tl r3 else r3);
          ep = (if has_exp then takeWhile is_digit r4 else []);
          r5 = (if has_exp then dropWhile is_digit r4 else r4)
      in if ip = [] \<or> (head_is ip (CHR ''0'') \<and> length ip \<noteq> 1) \<or> (has_frac \<and> fp = [])
            \<or> (has_exp \<and> ep = []) \<or> r5 \<noteq> []
         then None
         else Some ((if neg then - 1 else 1) * (of_nat (nat_of_digits (ip @ fp)) / 10 ^ length fp)
                    * (if eneg then 1 / 10 ^ nat_of_digits ep else 10 ^ nat_of_digits ep)))"

definition classify_word :: "string \<Rightarrow> token option" where
  "classify_word w =
     (if w = ''true'' then Some TTrue
      else if w = ''false'' then Some TFalse
      else if w = ''null'' then Some TNull
      else map_option (\<lambda>x. TNum (round_double x)) (parse_number w))"

definition is_word_char :: "char \<Rightarrow> bool" where
  "is_word_char c =
     (c \<in> set ''0123456789+-.abcdefghijklmnopqrstuvwxyzABCDEFGHIJKLMNOPQRSTUVWXYZ'')"

text \<open>JSON's own white space is narrower than ECMAScript's: SP, TAB, LF, CR.\<close>

definition is_json_ws :: "char \<Rightarrow> bool" where
  "is_json_ws c = (c \<in> set [CHR 0x20, CHR 0x09, CHR 0x0A, CHR 0x0D])"

fun hex_val :: "char \<Rightarrow> nat option" where
  "hex_val c =
     (if is_digit c then Some (digit_val c)
      else if c \<in> set ''abcdef'' then Some (of_char c - 87)
      else if c \<in> set ''ABCDEF'' then Some (of_char c - 55)
      else None)"

datatype lstate =
    LIdle
  | LWord string
  | LStr string
  | LEsc string
  | LUni string "nat list"

definition lex_idle :: "char \<Rightarrow> (lstate \<times> token list) option" where
  "lex_idle c =
     (if is_json_ws c then Some (LIdle, [])
      else if c = CHR ''{'' then Some (LIdle, [TLBrace])
      else if c = CHR ''}'' then Some (LIdle, [TRBrace])
      else if c = CHR ''['' then Some (LIdle, [TLBrack])
      else if c = CHR '']'' then Some (LIdle, [TRBrack])
      else if c = CHR '':'' then Some (LIdle, [TColon])
      else if c = CHR '','' then Some (LIdle, [TComma])
      else if c = CHR 0x22 then Some (LStr [], [])
      else if is_word_char c then Some (LWord [c], [])
      else None)"

definition unescape :: "char \<Rightarrow> char option" where
  "unescape c =
     (if c = CHR 0x22 \<or> c = CHR 0x5C \<or> c = CHR ''/'' then Some c
      else if c = CHR ''b'' then Some (CHR 0x08)
      else if c = CHR ''f'' then Some (CHR 0x0C)
      else if c = CHR ''n'' then Some (CHR 0x0A)
      else if c = CHR ''r'' then Some (CHR 0x0D)
      else if c = CHR ''t'' then Some (CHR 0x09)
      else None)"

fun lex_step :: "lstate \<Rightarrow> char \<Rightarrow> (lstate \<times> token list) option" where
  "lex_step LIdle c = lex_idle c"
| "lex_step (LWord w) c =
     (if is_word_char c then Some (LWord (w @ [c]), [])
      else (case classify_word w of
              None \<Rightarrow> None
            | Some t \<Rightarrow> (case lex_idle c of
                          None \<Rightarrow> None
                        | Some (st, ts) \<Rightarrow> Some (st, t # ts))))"
| "lex_step (LStr s) c =
     (if c = CHR 0x22 then Some (LIdle, [TStr s])
      else if c = CHR 0x5C then Some (LEsc s, [])
      else if (of_char c :: nat) < 32 then None
      else Some (LStr (s @ [c]), []))"
| "lex_step (LEsc s) c =
     (if c = CHR ''u'' then Some (LUni s [], [])
      else (case unescape c of None \<Rightarrow> None | Some x \<Rightarrow> Some (LStr (s @ [x]), [])))"
| "lex_step (LUni s hs) c =
     (case hex_val c of
        None \<Rightarrow> None
      | Some h \<Rightarrow>
          (if length hs < 3 then Some (LUni s (hs @ [h]), [])
           else (let u = foldl (\<lambda>a d. 16 * a + d) 0 (hs @ [h])
                 in if u < 256 then Some (LStr (s @ [char_of u]), []) else None)))"

fun lex_go :: "lstate \<Rightarrow> string \<Rightarrow> token list option" where
  "lex_go st [] =
     (case st of
        LIdle \<Rightarrow> Some []
      | LWord w \<Rightarrow> map_option (\<lambda>t. [t]) (classify_word w)
      | _ \<Rightarrow> None)"
| "lex_go st (c # cs) =
     (case lex_step st c of
        None \<Rightarrow> None
      | Some (st', ts) \<Rightarrow> map_option (\<lambda>r. ts @ r) (lex_go st' cs))"

datatype frame =
    FArr "json list"
  | FObj "(string \<times> json) list" "string option"

datatype pmode = PValue | PArrFirst | PObjFirst | PKey | PColon | PAfter | PDone json

text \<open>A value is complete: it is the result, or it goes into the enclosing array or object.\<close>

fun value_done :: "json \<Rightarrow> frame list \<Rightarrow> (pmode \<times> frame list) option" where
  "value_done v [] = Some (PDone v, [])"
| "value_done v (FArr xs # st) = Some (PAfter, FArr (xs @ [v]) # st)"
| "value_done v (FObj ms (Some k) # st) = Some (PAfter, FObj (obj_set k v ms) None # st)"
| "value_done v (FObj ms None # st) = None"

fun scalar_of :: "token \<Rightarrow> json option" where
  "scalar_of (TStr s) = Some (JStr s)"
| "scalar_of (TNum n) = Some (JNum n)"
| "scalar_of TTrue = Some (JBool True)"
| "scalar_of TFalse = Some (JBool False)"
| "scalar_of TNull = Some JNull"
| "scalar_of _ = None"

definition start_value :: "token \<Rightarrow> frame list \<Rightarrow> (pmode \<times> frame list) option" where
  "start_value t st =
     (if t = TLBrack then Some (PArrFirst, FArr [] # st)
      else if t = TLBrace then Some (PObjFirst, FObj [] None # st)
      else (case scalar_of t of None \<Rightarrow> None | Some v \<Rightarrow> value_done v st))"

definition close_array :: "frame list \<Rightarrow> (pmode \<times> frame list) option" where
  "close_array st = (case st of FArr xs # st' \<Rightarrow> value_done (JArr xs) st' | _ \<Rightarrow> None)"

definition close_object :: "frame list \<Rightarrow> (pmode \<times> frame list) option" where
  "close_object st = (case st of FObj ms None # st' \<Rightarrow> value_done (JObj ms) st' | _ \<Rightarrow> None)"

definition take_key :: "token \<Rightarrow> frame list \<Rightarrow> (pmode \<times> frame list) option" where
  "take_key t st =
     (case (t, st) of
        (TStr k, FObj ms None # st') \<Rightarrow> Some (PColon, FObj ms (Some k) # st')
      | _ \<Rightarrow> None)"

fun parse_step :: "pmode \<Rightarrow> frame list \<Rightarrow> token \<Rightarrow> (pmode \<times> frame list) option" where
  "parse_step PValue st t = start_value t st"
| "parse_step PArrFirst st t = (if t = TRBrack then close_array st else start_value t st)"
| "parse_step PObjFirst st t = (if t = TRBrace then close_object st else take_key t st)"
| "parse_step PKey st t = take_key t st"
| "parse_step PColon st t = (if t = TColon then Some (PValue, st) else None)"
| "parse_step PAfter st t =
     (if t = TComma then (case st of FArr _ # _ \<Rightarrow> Some (PValue, st)
                                   | FObj _ _ # _ \<Rightarrow> Some (PKey, st)
                                   | [] \<Rightarrow> None)
      else if t = TRBrack then close_array st
      else if t = TRBrace then close_object st
      else None)"
| "parse_step (PDone v) st t = None"

fun parse_go :: "pmode \<Rightarrow> frame list \<Rightarrow> token list \<Rightarrow> string + json" where
  "parse_go m st [] =
     (case m of PDone v \<Rightarrow> Inr v | _ \<Rightarrow> Inl ''Unexpected end of JSON input'')"
| "parse_go m st (t # ts) =
     (case parse_step m st t of
        None \<Rightarrow> Inl ''Unexpected token in JSON''
      | Some (m', st') \<Rightarrow> parse_go m' st' ts)"

definition JSON_parse :: "string \<Rightarrow> string + json" where
  "JSON_parse s =
     (case lex_go LIdle s of
        None \<Rightarrow> Inl ''Unexpected token in JSON''
      | Some ts \<Rightarrow> parse_go PValue [] ts)"

text \<open>
  \<^verbatim>\<open>JSON.stringify\<close> of a string (ECMAScript, QuoteJSONString): the quote, the backslash
  and the control characters are escaped.
\<close>

definition hex_digit :: "nat \<Rightarrow> char" where
  "hex_digit n = ''0123456789abcdef'' ! n"

definition quote_char :: "char \<Rightarrow> string" where
  "quote_char c =
     (if c = CHR 0x22 then [CHR 0x5C, CHR 0x22]
      else if c = CHR 0x5C then [CHR 0x5C, CHR 0x5C]
      else if c = CHR 0x08 then [CHR 0x5C, CHR ''b'']
      else if c = CHR 0x0C then [CHR 0x5C, CHR ''f'']
      else if c = CHR 0x0A then [CHR 0x5C, CHR ''n'']
      else if c = CHR 0x0D then [CHR 0x5C, CHR ''r'']
      else if c = CHR 0x09 then [CHR 0x5C, CHR ''t'']
      else if (of_char c :: nat) < 32
        then [CHR 0x5C, CHR ''u'', CHR ''0'', CHR ''0'',
              hex_digit (of_char c div 16), hex_digit (of_char c mod 16)]
      else [c])"

definition JSON_quote :: "string \<Rightarrow> string" where
  "JSON_quote s = [CHR 0x22] @ concat (map quote_char s) @ [CHR 0x22]"

subsection \<open>The authentication context and the outbound call\<close>

text \<open>
  \<^verbatim>\<open>interface AuthData\<close>: the credentials, the context, and the two alternately spelled keys
  that the handlers read from the top level of the object (\<^verbatim>\<open>authData.project_id\<close> and
  \<^verbatim>\<open>authData.projectId\<close>).
\<close>

record Credentials =
  access_token :: "string option"

record Context =
  ctx_project_id :: "string option"

record AuthData =
  credentials :: "Credentials option"
  auth_context :: "Context option"
  auth_project_id :: "string option"
  auth_projectId :: "string option"

text \<open>\<^verbatim>\<open>authData?.credentials?.access_token\<close> and \<^verbatim>\<open>authData?.context?.project_id\<close>.\<close>

definition accessToken_of :: "AuthData option \<Rightarrow> string option" where
  "accessToken_of authData = Option.bind (Option.bind authData credentials) access_token"

definition context_project_id :: "AuthData option \<Rightarrow> string option" where
  "context_project_id authData = Option.bind (Option.bind authData auth_context) ctx_project_id"

record request =
  req_method :: string
  req_url :: string
  req_headers :: "(string \<times> string) list"
  req_body :: "json option"

text \<open>
  A response as the handlers observe it: the status line, the \<^verbatim>\<open>content-type\<close> header, and
  what \<^verbatim>\<open>response.json()\<close> and \<^verbatim>\<open>response.text()\<close> give when awaited (\<^term>\<open>Inl\<close>: the promise
  rejects). \<^verbatim>\<open>fetch\<close> itself is a parameter: the remote service answers, or the call fails
  with a message.
\<close>

record response =
  resp_status :: nat
  resp_statusText :: string
  resp_content_type :: "string option"
  resp_json :: "string + json"
  resp_text :: "string + string"

type_synonym fetch_fn = "request \<Rightarrow> string + response"

datatype body = BJson json | BText string

text \<open>
  Errors. \<^verbatim>\<open>new Error(msg)\<close> is \<open>Error msg\<close>. The error for a non-success status has the message
  \<^verbatim>\<open>`${prefix}: ${status} ${statusText}. ${body}`\<close>, the body as text or through \<^verbatim>\<open>JSON.stringify\<close>;
  the final \<^verbatim>\<open>catch\<close> of a handler rethrows \<^verbatim>\<open>`${prefix}: ${error.message}`\<close>. Both keep their
  parts instead of the concatenated text.
\<close>

datatype error =
    Error string
  | HttpError string nat string body
  | Rethrown string error

definition response_ok :: "response \<Rightarrow> bool" where
  "response_ok r = (200 \<le> resp_status r \<and> resp_status r \<le> 299)"

text \<open>The response body: JSON when the content type says so and it parses, else the text.\<close>

definition read_text :: "response \<Rightarrow> error + body" where
  "read_text r = (case resp_text r of Inl e \<Rightarrow> Inl (Error e) | Inr t \<Rightarrow> Inr (BText t))"

definition read_body :: "response \<Rightarrow> error + body" where
  "read_body r =
     (if (case resp_content_type r of None \<Rightarrow> False | Some ct \<Rightarrow> includes_str ct ''application/json'')
      then (case resp_json r of Inr j \<Rightarrow> Inr (BJson j) | Inl _ \<Rightarrow> read_text r)
      else read_text r)"

text \<open>
  The \<^verbatim>\<open>try\<close> block that every handler ends with, the same text in each: one \<^verbatim>\<open>fetch\<close>, the
  body read, a non-success status thrown, the result built by \<open>k\<close>; whatever is thrown
  inside is rethrown with the handler's prefix. The second component is the list of the
  requests that were sent.
\<close>

definition dispatch ::
  "fetch_fn \<Rightarrow> request \<Rightarrow> string \<Rightarrow> string \<Rightarrow> (response \<Rightarrow> body \<Rightarrow> error + 'r)
     \<Rightarrow> (error + 'r) \<times> request list" where
  "dispatch fetch rq fail_prefix catch_prefix k =
     ((case fetch rq of
         Inl e \<Rightarrow> Inl (Rethrown catch_prefix (Error e))
       | Inr r \<Rightarrow>
           (case read_body r of
              Inl e \<Rightarrow> Inl (Rethrown catch_prefix e)
            | Inr b \<Rightarrow>
                if \<not> response_ok r
                then Inl (Rethrown catch_prefix
                            (HttpError fail_prefix (resp_status r) (resp_statusText r) b))
                else (case k r b of
                        Inl e \<Rightarrow> Inl (Rethrown catch_prefix e)
                      | Inr x \<Rightarrow> Inr x))),
      [rq])"

definition auth_required :: string where
  "auth_required = ''Authentication required. Please ensure OptiID authentication is configured.''"

definition bearer_headers :: "string \<Rightarrow> (string \<times> string) list" where
  "bearer_headers tok =
     [(''Authorization'', ''Bearer '' @ tok), (''Content-Type'', ''application/json'')]"

subsection \<open>The host\<close>

text \<open>
  What the handlers take from their host, as parameters of every handler:
  \<^item> \<^verbatim>\<open>fetch\<close>;
  \<^item> the clock: \<^verbatim>\<open>new Date(s).getTime()\<close> in milliseconds (\<^term>\<open>None\<close> for an invalid date,
    whose time value is \<^verbatim>\<open>NaN\<close>), and \<^verbatim>\<open>toLocaleDateString("en-US", {month: "short", day:
    "numeric", year: "numeric"})\<close> of a date with that time value, which depends on the time
    zone of the host;
  \<^item> \<^verbatim>\<open>Number.prototype.toString\<close> (which \<^verbatim>\<open>String(x)\<close> and \<^verbatim>\<open>`${x}`\<close> call) for the numbers
    whose text this development does not compute itself: the doubles of magnitude
    beyond \<open>2\<^sup>5\<^sup>3\<close>, for which the engine prints the shortest digits that identify the
    double, in exponent notation from \<open>10\<^sup>2\<^sup>1\<close> on, and \<^verbatim>\<open>Infinity\<close>.
\<close>

record platform =
  pf_fetch :: fetch_fn
  getTime :: "string \<Rightarrow> int option"
  toLocaleDateString :: "int option \<Rightarrow> string"
  numberToString :: "rat \<Rightarrow> string"

text \<open>
  A \<^verbatim>\<open>Date\<close> holds a time value of at most \<open>8.64 \<cdot> 10\<^sup>1\<^sup>5\<close> milliseconds in magnitude
  (ECMAScript, TimeClip); anything beyond is an invalid date.
\<close>

definition time_value :: "platform \<Rightarrow> string \<Rightarrow> int option" where
  "time_value pf s =
     (case getTime pf s of
        None \<Rightarrow> None
      | Some t \<Rightarrow> if \<bar>t\<bar> \<le> 8640000000000000 then Some t else None)"

text \<open>
  \<^verbatim>\<open>String(n)\<close> and \<^verbatim>\<open>`${n}`\<close> for a number \<open>n\<close> that is an integer: its decimal numeral up to
  \<open>2\<^sup>5\<^sup>3\<close> in magnitude, where every integer is a double and is printed with all its
  digits.
\<close>

definition number_text :: "platform \<Rightarrow> int \<Rightarrow> string" where
  "number_text pf n = (if \<bar>n\<bar> \<le> 2 ^ 53 then show_int n else numberToString pf (of_int n))"

text \<open>
  \<^verbatim>\<open>x.toFixed(1)\<close> (ECMAScript, Number.prototype.toFixed). Below \<open>10\<^sup>2\<^sup>1\<close> in magnitude: take
  the integer \<open>n\<close> for which \<open>n / 10 - |x|\<close> is closest to zero, the larger one on a tie, and
  print it with one digit after the point; a negative \<open>x\<close> gets a minus sign. From
  \<open>10\<^sup>2\<^sup>1\<close> on the result is \<^verbatim>\<open>String(x)\<close>.
\<close>

definition toFixed1 :: "platform \<Rightarrow> rat \<Rightarrow> string" where
  "toFixed1 pf x =
     (if \<bar>x\<bar> < 10 ^ 21
      then (let n = nat \<lfloor>10 * \<bar>x\<bar> + 1 / 2\<rfloor>
            in (if x < 0 then ''-'' else '''') @ show_nat (n div 10) @ ''.'' @ show_nat (n mod 10))
      else numberToString pf x)"

subsection \<open>\<^verbatim>\<open>update_experiment\<close>\<close>

text \<open>
  \<^verbatim>\<open>interface UpdateExperimentParameters\<close>: the two named parameters and the rest of the
  properties (\<^verbatim>\<open>[key: string]: any\<close>), which \<^verbatim>\<open>...otherFields\<close> collects.
\<close>

record UpdateExperimentParameters =
  experiment_id :: string
  metrics :: "string option"
  otherFields :: "(string \<times> json) list"

record UpdateResult =
  upd_status :: nat
  upd_experiment :: body
  upd_message :: string

definition invalid_experiment_id :: "string \<Rightarrow> string" where
  \<open>invalid_experiment_id v = ''Invalid experiment_id: "'' @ v @ ''". Must be a valid integer.''\<close>

text \<open>\<^verbatim>\<open>`https://api.optimizely.com/v2/experiments/${experimentId}`\<close>.\<close>

definition update_url :: "platform \<Rightarrow> int \<Rightarrow> string" where
  "update_url pf experimentId =
     ''https://api.optimizely.com/v2/experiments/'' @ number_text pf experimentId"

definition update_result :: "platform \<Rightarrow> int \<Rightarrow> response \<Rightarrow> body \<Rightarrow> error + UpdateResult" where
  "update_result pf experimentId r b =
     Inr \<lparr>upd_status = resp_status r, upd_experiment = b,
          upd_message = ''Successfully updated experiment '' @ number_text pf experimentId\<rparr>"

definition update_dispatch ::
  "platform \<Rightarrow> string \<Rightarrow> int \<Rightarrow> (string \<times> json) list \<Rightarrow> (error + UpdateResult) \<times> request list" where
  "update_dispatch pf accessToken experimentId requestBody =
     dispatch (pf_fetch pf)
       \<lparr>req_method = ''PATCH'', req_url = update_url pf experimentId,
        req_headers = bearer_headers accessToken, req_body = Some (JObj requestBody)\<rparr>
       ''Failed to update experiment'' ''Failed to update Optimizely experiment''
       (update_result pf experimentId)"

text \<open>
  \<^verbatim>\<open>updateExperiment\<close> of \<^verbatim>\<open>src/tools/update-experiment.ts\<close>: the request body is the other
  fields, and the parsed metrics as they are.
\<close>

definition updateExperiment ::
  "platform \<Rightarrow> UpdateExperimentParameters \<Rightarrow> AuthData option
     \<Rightarrow> (error + UpdateResult) \<times> request list" where
  "updateExperiment pf parameters authData =
     (if \<not> present (accessToken_of authData) then (Inl (Error auth_required), [])
      else (case parseInt (experiment_id parameters) of
         None \<Rightarrow> (Inl (Error (invalid_experiment_id (experiment_id parameters))), [])
       | Some experimentId \<Rightarrow>
           (let accessToken = the (accessToken_of authData);
                requestBody = obj_assign [] (otherFields parameters)
            in if present (metrics parameters)
               then (case JSON_parse (the (metrics parameters)) of
                       Inl e \<Rightarrow> (Inl (Error (''Invalid metrics JSON: '' @ e)), [])
                     | Inr parsed \<Rightarrow>
                         update_dispatch pf accessToken experimentId
                           (obj_set ''metrics'' parsed requestBody))
               else update_dispatch pf accessToken experimentId requestBody)))"

text \<open>
  The variant of \<^verbatim>\<open>updateExperiment\<close> in \<^verbatim>\<open>src/unnamed/part_000\<close> (lines 22 to 127): the
  body starts from the fixed account id, and every element of a metrics array gets the
  defaults.

  \<^verbatim>\<open>{...metric}\<close> copies the own properties of an object; an array and a string spread
  their elements under the index keys, a number, a boolean and \<^verbatim>\<open>null\<close> spread nothing.
  Reading \<^verbatim>\<open>metric.aggregator\<close> of \<^verbatim>\<open>null\<close> throws a \<^verbatim>\<open>TypeError\<close>, inside the
  \<^verbatim>\<open>try\<close> around the parsing. (JavaScript lists integer-like keys first; the property
  lists here keep the order of the text.)
\<close>

definition account_id :: rat where
  "account_id = 22816830226"

definition spread :: "json \<Rightarrow> (string \<times> json) list" where
  "spread j =
     (case j of
        JObj ps \<Rightarrow> obj_assign [] ps
      | JArr xs \<Rightarrow> map (\<lambda>i. (show_nat i, xs ! i)) [0..<length xs]
      | JStr cs \<Rightarrow> map (\<lambda>i. (show_nat i, JStr [cs ! i])) [0..<length cs]
      | _ \<Rightarrow> [])"

text \<open>\<^verbatim>\<open>metric.key || "dflt"\<close>.\<close>

definition prop_or :: "json \<Rightarrow> string \<Rightarrow> string \<Rightarrow> json" where
  "prop_or metric key dflt =
     (case get_prop metric key of
        None \<Rightarrow> JStr dflt
      | Some v \<Rightarrow> if truthy v then v else JStr dflt)"

definition metric_defaults :: "json \<Rightarrow> string + json" where
  "metric_defaults metric =
     (if metric = JNull then Inl ''Cannot read properties of null (reading 'aggregator')''
      else Inr (JObj
        (obj_set ''winning_direction'' (prop_or metric ''winning_direction'' ''increasing'')
        (obj_set ''scope'' (prop_or metric ''scope'' ''visitor'')
        (obj_set ''event_type'' (prop_or metric ''event_type'' ''custom'')
        (obj_set ''account_id'' (JNum account_id)
        (obj_set ''aggregator'' (prop_or metric ''aggregator'' ''unique'')
        (spread metric))))))))"

text \<open>\<^verbatim>\<open>parsedMetrics.map(...)\<close>: the first element that throws ends the mapping.\<close>

fun map_metrics :: "json list \<Rightarrow> string + json list" where
  "map_metrics [] = Inr []"
| "map_metrics (m # ms) =
     (case metric_defaults m of
        Inl e \<Rightarrow> Inl e
      | Inr m' \<Rightarrow> (case map_metrics ms of Inl e \<Rightarrow> Inl e | Inr ms' \<Rightarrow> Inr (m' # ms')))"

definition metrics_with_defaults :: "json \<Rightarrow> string + json" where
  "metrics_with_defaults parsedMetrics =
     (case parsedMetrics of
        JArr ms \<Rightarrow> (case map_metrics ms of Inl e \<Rightarrow> Inl e | Inr ms' \<Rightarrow> Inr (JArr ms'))
      | _ \<Rightarrow> Inr parsedMetrics)"

definition updateExperiment_p0 ::
  "platform \<Rightarrow> UpdateExperimentParameters \<Rightarrow> AuthData option
     \<Rightarrow> (error + UpdateResult) \<times> request list" where
  "updateExperiment_p0 pf parameters authData =
     (if \<not> present (accessToken_of authData) then (Inl (Error auth_required), [])
      else (case parseInt (experiment_id parameters) of
         None \<Rightarrow> (Inl (Error (invalid_experiment_id (experiment_id parameters))), [])
       | Some experimentId \<Rightarrow>
           (let accessToken = the (accessToken_of authData);
                requestBody =
                  obj_assign [(''account_id'', JNum account_id)] (otherFields parameters)
            in if present (metrics parameters)
               then (case JSON_parse (the (metrics parameters)) of
                       Inl e \<Rightarrow> (Inl (Error (''Invalid metrics JSON: '' @ e)), [])
                     | Inr parsedMetrics \<Rightarrow>
                         (case metrics_with_defaults parsedMetrics of
                            Inl e \<Rightarrow> (Inl (Error (''Invalid metrics JSON: '' @ e)), [])
                          | Inr ms \<Rightarrow>
                              update_dispatch pf accessToken experimentId
                                (obj_set ''metrics'' ms requestBody)))
               else update_dispatch pf accessToken experimentId requestBody)))"

subsection \<open>The project identifier\<close>

text \<open>
  \<^verbatim>\<open>authData?.context?.project_id || authData?.project_id || (authData as any)?.projectId
  || paramProjectId\<close>, as \<^verbatim>\<open>listEvents\<close> and the first \<^verbatim>\<open>createExperiment\<close> of
  \<^verbatim>\<open>part_000\<close> write it (\<^verbatim>\<open>||\<close> associates to the left), and the shorter
  \<^verbatim>\<open>authData?.context?.project_id || paramProjectId\<close> of the other two.
\<close>

definition projectIdStr_of :: "AuthData option \<Rightarrow> string option \<Rightarrow> string option" where
  "projectIdStr_of authData paramProjectId =
     or_else (or_else (or_else (context_project_id authData)
                               (Option.bind authData auth_project_id))
                      (Option.bind authData auth_projectId))
             paramProjectId"

definition projectIdStr_short :: "AuthData option \<Rightarrow> string option \<Rightarrow> string option" where
  "projectIdStr_short authData paramProjectId =
     or_else (context_project_id authData) paramProjectId"

definition project_id_required :: string where
  "project_id_required = ''project_id is required. Either provide it as a parameter or ensure it's available in the context when running from Optimizely.''"

definition invalid_project_id :: "string \<Rightarrow> string" where
  \<open>invalid_project_id v = ''Invalid project_id: "'' @ v @ ''". Must be a valid integer.''\<close>

subsection \<open>\<^verbatim>\<open>list_events\<close>\<close>

record ListEventsParameters =
  le_project_id :: "string option"
  include_classic :: "bool option"

record ListResult =
  le_status :: nat
  le_events :: body
  le_count :: nat
  le_message :: string

definition events_url :: "platform \<Rightarrow> int \<Rightarrow> bool \<Rightarrow> string" where
  "events_url pf project_id classic =
     ''https://api.optimizely.com/v2/events?project_id='' @ number_text pf project_id
       @ (if classic then ''&include_classic=true'' else [])"

definition events_count :: "body \<Rightarrow> nat" where
  "events_count b = (case b of BJson (JArr xs) \<Rightarrow> length xs | _ \<Rightarrow> 0)"

definition list_result :: "platform \<Rightarrow> int \<Rightarrow> response \<Rightarrow> body \<Rightarrow> error + ListResult" where
  "list_result pf project_id r b =
     Inr \<lparr>le_status = resp_status r, le_events = b, le_count = events_count b,
          le_message = ''Successfully retrieved '' @ show_nat (events_count b)
                         @ '' events for project '' @ number_text pf project_id\<rparr>"

definition listEvents ::
  "platform \<Rightarrow> ListEventsParameters \<Rightarrow> AuthData option \<Rightarrow> (error + ListResult) \<times> request list" where
  "listEvents pf parameters authData =
     (if \<not> present (accessToken_of authData) then (Inl (Error auth_required), [])
      else (let accessToken = the (accessToken_of authData);
                projectIdStr = projectIdStr_of authData (le_project_id parameters)
            in if \<not> present projectIdStr then (Inl (Error project_id_required), [])
               else (case parseInt (the projectIdStr) of
                  None \<Rightarrow> (Inl (Error (invalid_project_id (the projectIdStr))), [])
                | Some project_id \<Rightarrow>
                    dispatch (pf_fetch pf)
                      \<lparr>req_method = ''GET'',
                       req_url = events_url pf project_id
                                   (case include_classic parameters of None \<Rightarrow> False | Some b \<Rightarrow> b),
                       req_headers = bearer_headers accessToken, req_body = None\<rparr>
                      ''Failed to list events'' ''Failed to list Optimizely events''
                      (list_result pf project_id))))"

subsection \<open>\<^verbatim>\<open>create_experiment\<close>\<close>

record CreateResult =
  cr_status :: nat
  cr_experiment :: body
  cr_message_id :: json

text \<open>
  The result of a creation. Its message is \<^verbatim>\<open>`Experiment created successfully with ID:
  ${responseBody.id || "unknown"}`\<close>; the record keeps the value that is interpolated. A JSON
  body \<^verbatim>\<open>null\<close> makes the property access throw.
\<close>

definition create_result :: "response \<Rightarrow> body \<Rightarrow> error + CreateResult" where
  "create_result r b =
     (case b of
        BText t \<Rightarrow> Inr \<lparr>cr_status = resp_status r, cr_experiment = b, cr_message_id = JStr ''unknown''\<rparr>
      | BJson j \<Rightarrow>
          if j = JNull then Inl (Error ''Cannot read properties of null (reading 'id')'')
          else Inr \<lparr>cr_status = resp_status r, cr_experiment = b,
                    cr_message_id = prop_or j ''id'' ''unknown''\<rparr>)"

definition create_dispatch ::
  "platform \<Rightarrow> string \<Rightarrow> json \<Rightarrow> (error + CreateResult) \<times> request list" where
  "create_dispatch pf accessToken requestBody =
     dispatch (pf_fetch pf)
       \<lparr>req_method = ''POST'', req_url = ''https://api.optimizely.com/v2/experiments'',
        req_headers = bearer_headers accessToken, req_body = Some requestBody\<rparr>
       ''Failed to create experiment'' ''Failed to create Optimizely experiment''
       create_result"

text \<open>
  \<^verbatim>\<open>if (variations) { JSON.parse } else { defaults }\<close>, with the defaults of the handler as
  a parameter.
\<close>

definition parse_variations :: "json \<Rightarrow> string option \<Rightarrow> error + json" where
  "parse_variations dflt variations =
     (if present variations
      then (case JSON_parse (the variations) of
              Inl e \<Rightarrow> Inl (Error (''Invalid variations JSON: '' @ e))
            | Inr v \<Rightarrow> Inr v)
      else Inr dflt)"

text \<open>A destructuring default applies to \<^verbatim>\<open>undefined\<close> only.\<close>

definition default_to :: "string \<Rightarrow> string option \<Rightarrow> string" where
  "default_to d x = (case x of None \<Rightarrow> d | Some v \<Rightarrow> v)"

text \<open>An object literal as \<^verbatim>\<open>JSON.stringify\<close> sends it: an \<^verbatim>\<open>undefined\<close> property is left out.\<close>

definition object_of :: "(string \<times> json option) list \<Rightarrow> json" where
  "object_of ps = JObj (concat (map (\<lambda>(k, v). case v of None \<Rightarrow> [] | Some j \<Rightarrow> [(k, j)]) ps))"

text \<open>\<^verbatim>\<open>src/tools/create-experiment.ts\<close>.\<close>

record CreateExperimentParameters =
  ce_project_id :: "string option"
  ce_description :: string
  ce_experiment_name :: string
  ce_status :: "string option"
  ce_type :: "string option"
  ce_variations :: "string option"

definition default_variations :: json where
  "default_variations =
     JArr [JObj [(''name'', JStr ''Original''), (''actions'', JArr [])],
           JObj [(''name'', JStr ''Variation 1''), (''actions'', JArr [])]]"

definition createExperiment ::
  "platform \<Rightarrow> CreateExperimentParameters \<Rightarrow> AuthData option
     \<Rightarrow> (error + CreateResult) \<times> request list" where
  "createExperiment pf parameters authData =
     (if \<not> present (accessToken_of authData) then (Inl (Error auth_required), [])
      else (let accessToken = the (accessToken_of authData);
                project_id = projectIdStr_short authData (ce_project_id parameters)
            in if \<not> present project_id then (Inl (Error project_id_required), [])
               else (case parse_variations default_variations (ce_variations parameters) of
                  Inl e \<Rightarrow> (Inl e, [])
                | Inr parsedVariations \<Rightarrow>
                    create_dispatch pf accessToken
                      (JObj [(''project_id'', JStr (the project_id)),
                             (''status'', JStr (default_to ''not_started'' (ce_status parameters))),
                             (''description'', JStr (ce_description parameters)),
                             (''type'', JStr (default_to ''ab'' (ce_type parameters))),
                             (''edit_url'', JStr (ce_experiment_name parameters)),
                             (''variations'', parsedVariations)]))))"

text \<open>
  The two variants of \<^verbatim>\<open>part_000\<close> (lines 179 to 342 and 426 to 560). They send the project
  identifier as a number.
\<close>

record CreateExperimentParameters_p0 =
  p0_project_id :: "string option"
  p0_name :: string
  p0_description :: "string option"
  p0_edit_url :: "string option"
  p0_status :: "string option"
  p0_type :: "string option"
  p0_variations :: "string option"

definition default_variations_p0 :: json where
  "default_variations_p0 =
     JArr [JObj [(''name'', JStr ''Original''), (''weight'', JNum 5000), (''totalTraffic'', JNum 50),
                 (''percentage'', JNum 50), (''actions'', JArr [])],
           JObj [(''name'', JStr ''Variation #1''), (''weight'', JNum 5000), (''totalTraffic'', JNum 50),
                 (''percentage'', JNum 50), (''actions'', JArr [])]]"

definition request_body_p0 ::
  "int \<Rightarrow> CreateExperimentParameters_p0 \<Rightarrow> json \<Rightarrow> (string \<times> json option) list" where
  "request_body_p0 project_id parameters parsedVariations =
     [(''project_id'', Some (JNum (of_int project_id))),
      (''name'', Some (JStr (p0_name parameters))),
      (''description'', map_option JStr (p0_description parameters)),
      (''status'', Some (JStr (default_to ''not_started'' (p0_status parameters)))),
      (''type'', Some (JStr (default_to ''a/b'' (p0_type parameters)))),
      (''variations'', Some parsedVariations)]"

text \<open>
  \<^verbatim>\<open>JSON.stringify(["and", ["or", {match_type: "simple", type: "url", value: edit_url}]])\<close>.
\<close>

definition url_conditions :: "string \<Rightarrow> string" where
  \<open>url_conditions edit_url =
     ''["and",["or",{"match_type":"simple","type":"url","value":'' @ JSON_quote edit_url @ ''}]]''\<close>

definition url_targeting_p0a :: "string \<Rightarrow> json" where
  "url_targeting_p0a edit_url =
     JObj [(''edit_url'', JStr edit_url), (''activation_type'', JStr ''immediate''),
           (''deactivation_enabled'', JBool False), (''conditions'', JStr (url_conditions edit_url))]"

text \<open>
  The first variant appends \<^verbatim>\<open>JSON.stringify(authData, null, 2)\<close> to the message for a missing
  project identifier; \<open>dump\<close> stands for that serialisation.
\<close>

definition createExperiment_p0a ::
  "platform \<Rightarrow> (AuthData option \<Rightarrow> string) \<Rightarrow> CreateExperimentParameters_p0 \<Rightarrow> AuthData option
     \<Rightarrow> (error + CreateResult) \<times> request list" where
  "createExperiment_p0a pf dump parameters authData =
     (if \<not> present (accessToken_of authData) then (Inl (Error auth_required), [])
      else (let accessToken = the (accessToken_of authData);
                projectIdStr = projectIdStr_of authData (p0_project_id parameters)
            in if \<not> present projectIdStr
               then (Inl (Error (project_id_required @ '' AuthData structure: '' @ dump authData)), [])
               else (case parseInt (the projectIdStr) of
                  None \<Rightarrow> (Inl (Error (invalid_project_id (the projectIdStr))), [])
                | Some project_id \<Rightarrow>
                    (case parse_variations default_variations_p0 (p0_variations parameters) of
                       Inl e \<Rightarrow> (Inl e, [])
                     | Inr parsedVariations \<Rightarrow>
                         create_dispatch pf accessToken
                           (object_of
                              (request_body_p0 project_id parameters parsedVariations
                               @ (if present (p0_edit_url parameters)
                                  then [(''url_targeting'',
                                         Some (url_targeting_p0a (the (p0_edit_url parameters))))]
                                  else [])))))))"

definition createExperiment_p0b ::
  "platform \<Rightarrow> CreateExperimentParameters_p0 \<Rightarrow> AuthData option
     \<Rightarrow> (error + CreateResult) \<times> request list" where
  "createExperiment_p0b pf parameters authData =
     (if \<not> present (accessToken_of authData) then (Inl (Error auth_required), [])
      else (let accessToken = the (accessToken_of authData);
                projectIdStr = projectIdStr_short authData (p0_project_id parameters)
            in if \<not> present projectIdStr then (Inl (Error project_id_required), [])
               else (case parseInt (the projectIdStr) of
                  None \<Rightarrow> (Inl (Error (invalid_project_id (the projectIdStr))), [])
                | Some project_id \<Rightarrow>
                    (case parse_variations default_variations_p0 (p0_variations parameters) of
                       Inl e \<Rightarrow> (Inl e, [])
                     | Inr parsedVariations \<Rightarrow>
                         create_dispatch pf accessToken
                           (object_of
                              (request_body_p0 project_id parameters parsedVariations
                               @ (if present (p0_edit_url parameters)
                                  then [(''url_targeting'',
                                         Some (JObj [(''edit_url'', JStr (the (p0_edit_url parameters)))]))]
                                  else [])))))))"

text \<open>
  \<^verbatim>\<open>part_001\<close>: the earliest form of the handler takes the project and an API token as
  plain parameters and has no authentication context.
\<close>

record CreateExperimentParameters_p1 =
  p1_project_id :: string
  p1_api_token :: string
  p1_description :: string
  p1_experiment_name :: string
  p1_status :: "string option"
  p1_type :: "string option"
  p1_variations :: "string option"

definition createExperiment_p1 ::
  "platform \<Rightarrow> CreateExperimentParameters_p1 \<Rightarrow> (error + CreateResult) \<times> request list" where
  "createExperiment_p1 pf parameters =
     (case parse_variations default_variations (p1_variations parameters) of
        Inl e \<Rightarrow> (Inl e, [])
      | Inr parsedVariations \<Rightarrow>
          create_dispatch pf (p1_api_token parameters)
            (JObj [(''project_id'', JStr (p1_project_id parameters)),
                   (''status'', JStr (default_to ''not_started'' (p1_status parameters))),
                   (''description'', JStr (p1_description parameters)),
                   (''type'', JStr (default_to ''ab'' (p1_type parameters))),
                   (''edit_url'', JStr (p1_experiment_name parameters)),
                   (''variations'', parsedVariations)]))"

subsection \<open>\<^verbatim>\<open>generate_experiment_report\<close>: the results transformation\<close>

text \<open>
  The payload of the Stats API, with the fields that \<^verbatim>\<open>transformOptimizelyResults\<close> reads, at
  the types the vendor gives them. The \<^verbatim>\<open>results\<close> of a metric and the \<^verbatim>\<open>reach.variations\<close>
  are objects keyed by variation id: property lists in iteration order. A result carries a
  \<^verbatim>\<open>lift\<close> object or none. A numeric field holds the value that the text of the payload
  gives; the number that the program holds for it is the nearest double, and that is what
  the transformation reads.
\<close>

record Lift =
  lift_significance :: rat
  lift_value :: rat

record VariationResult =
  vr_name :: string
  vr_rate :: rat
  vr_lift :: "Lift option"

record MetricResults =
  mr_name :: string
  mr_results :: "(string \<times> VariationResult) list"

record ReachVariation =
  rv_name :: string
  rv_count :: rat
  rv_is_baseline :: bool

record OptimizelyResults =
  or_start_time :: string
  or_end_time :: string
  or_experiment_id :: int
  or_metrics :: "MetricResults list"
  or_reach_variations :: "(string \<times> ReachVariation) list"
  or_total_count :: rat
  or_confidence_level :: rat

text \<open>\<^verbatim>\<open>interface MetricVariation\<close>, \<^verbatim>\<open>Metric\<close>, \<^verbatim>\<open>Variation\<close>, \<^verbatim>\<open>Recommendation\<close>.\<close>

record MetricVariation =
  mv_name :: string
  mv_value :: rat
  mv_significance :: rat

record Metric =
  m_name :: string
  m_lift :: string
  m_variations :: "MetricVariation list"

record Variation =
  v_name :: string
  v_sampleSize :: rat
  v_description :: string

record Recommendation =
  rec_status :: string
  rec_title :: string
  rec_description :: string

text \<open>The \<^verbatim>\<open>Partial<ExperimentData>\<close> that the transformation returns.\<close>

record Transformed =
  t_experimentId :: string
  t_dateRange :: string
  t_duration :: string
  t_sampleSize :: rat
  t_confidenceLevel :: rat
  t_metrics :: "Metric list"
  t_variations :: "Variation list"

text \<open>
  \<^verbatim>\<open>Math.ceil((endDate.getTime() - startDate.getTime()) / (1000 * 60 * 60 * 24))\<close>: the two
  time values are integers and doubles, their difference and the quotient are rounded, and
  \<^verbatim>\<open>Math.ceil\<close> of a double is exact. The divisor is the double 86400000.
\<close>

definition durationDays :: "int option \<Rightarrow> int option \<Rightarrow> int option" where
  "durationDays startMs endMs =
     (case (startMs, endMs) of
        (Some s, Some e) \<Rightarrow>
          Some \<lceil>div_double (sub_double (of_int e) (of_int s)) (1000 * 60 * 60 * 24)\<rceil>
      | _ \<Rightarrow> None)"

text \<open>\<^verbatim>\<open>`${durationDays} days`\<close>.\<close>

definition duration_text :: "platform \<Rightarrow> int option \<Rightarrow> string" where
  "duration_text pf d = (case d of None \<Rightarrow> ''NaN'' | Some n \<Rightarrow> number_text pf n) @ '' days''"

text \<open>\<^verbatim>\<open>Object.values(results).filter((r) => r.lift).map((r) => r.lift.value)\<close>.\<close>

definition liftValues :: "(string \<times> VariationResult) list \<Rightarrow> rat list" where
  "liftValues results =
     map (\<lambda>r. round_double (lift_value (the (vr_lift r))))
         (filter (\<lambda>r. vr_lift r \<noteq> None) (map snd results))"

text \<open>\<^verbatim>\<open>liftValues.length > 0 ? Math.max(...liftValues) : 0\<close>.\<close>

definition bestLift :: "rat list \<Rightarrow> rat" where
  "bestLift vs = (case vs of [] \<Rightarrow> 0 | v # vs' \<Rightarrow> foldl max v vs')"

text \<open>\<^verbatim>\<open>bestLift > 0 ? `+${(bestLift * 100).toFixed(1)}%` : "N/A"\<close>.\<close>

definition liftStr :: "platform \<Rightarrow> rat \<Rightarrow> string" where
  "liftStr pf b = (if b > 0 then ''+'' @ toFixed1 pf (mul_double b 100) @ ''%'' else ''N/A'')"

definition metricVariation :: "VariationResult \<Rightarrow> MetricVariation" where
  "metricVariation result =
     \<lparr>mv_name = vr_name result, mv_value = mul_double (round_double (vr_rate result)) 100,
      mv_significance =
        (case vr_lift result of
           None \<Rightarrow> 0
         | Some l \<Rightarrow> mul_double (round_double (lift_significance l)) 100)\<rparr>"

definition transformMetric :: "platform \<Rightarrow> MetricResults \<Rightarrow> Metric" where
  "transformMetric pf metric =
     \<lparr>m_name = mr_name metric,
      m_lift = liftStr pf (bestLift (liftValues (mr_results metric))),
      m_variations = map (\<lambda>(variationId, result). metricVariation result) (mr_results metric)\<rparr>"

definition transformVariation :: "ReachVariation \<Rightarrow> Variation" where
  "transformVariation variation =
     \<lparr>v_name = rv_name variation, v_sampleSize = round_double (rv_count variation),
      v_description = (if rv_is_baseline variation then ''Original experience (Control)''
                       else ''Treatment variation'')\<rparr>"

definition transformOptimizelyResults :: "platform \<Rightarrow> OptimizelyResults \<Rightarrow> Transformed" where
  "transformOptimizelyResults pf resultsJson =
     (let startDate = time_value pf (or_start_time resultsJson);
          endDate = time_value pf (or_end_time resultsJson)
      in \<lparr>t_experimentId = number_text pf (double_int (or_experiment_id resultsJson)),
          t_dateRange = toLocaleDateString pf startDate @ '' - '' @ toLocaleDateString pf endDate,
          t_duration = duration_text pf (durationDays startDate endDate),
          t_sampleSize = round_double (or_total_count resultsJson),
          t_confidenceLevel = mul_double (round_double (or_confidence_level resultsJson)) 100,
          t_metrics = map (transformMetric pf) (or_metrics resultsJson),
          t_variations = map (\<lambda>(variationId, variation). transformVariation variation)
                             (or_reach_variations resultsJson)\<rparr>)"

subsection \<open>\<^verbatim>\<open>generate_experiment_report\<close>: the handler\<close>

text \<open>Reading the parsed payload at the types of the schema.\<close>

definition num_of :: "json option \<Rightarrow> rat option" where
  "num_of j = (case j of Some (JNum n) \<Rightarrow> Some n | _ \<Rightarrow> None)"

definition int_of :: "json option \<Rightarrow> int option" where
  "int_of j = (case j of Some (JNum n) \<Rightarrow> if of_int \<lfloor>n\<rfloor> = n then Some \<lfloor>n\<rfloor> else None | _ \<Rightarrow> None)"

definition str_of :: "json option \<Rightarrow> string option" where
  "str_of j = (case j of Some (JStr s) \<Rightarrow> Some s | _ \<Rightarrow> None)"

definition props_of :: "json option \<Rightarrow> (string \<times> json) list option" where
  "props_of j = (case j of Some (JObj ps) \<Rightarrow> Some ps | _ \<Rightarrow> None)"

definition items_of :: "json option \<Rightarrow> json list option" where
  "items_of j = (case j of Some (JArr xs) \<Rightarrow> Some xs | _ \<Rightarrow> None)"

definition decode_lift :: "json \<Rightarrow> Lift option option" where
  "decode_lift result =
     (case get_prop result ''lift'' of
        None \<Rightarrow> Some None
      | Some JNull \<Rightarrow> Some None
      | Some (JObj ps) \<Rightarrow>
          (case (num_of (map_of ps ''significance''), num_of (map_of ps ''value'')) of
             (Some s, Some v) \<Rightarrow> Some (Some \<lparr>lift_significance = s, lift_value = v\<rparr>)
           | _ \<Rightarrow> None)
      | _ \<Rightarrow> None)"

definition decode_result :: "json \<Rightarrow> VariationResult option" where
  "decode_result result =
     (case (str_of (get_prop result ''name''), num_of (get_prop result ''rate''), decode_lift result) of
        (Some n, Some r, Some l) \<Rightarrow> Some \<lparr>vr_name = n, vr_rate = r, vr_lift = l\<rparr>
      | _ \<Rightarrow> None)"

definition decode_entries :: "(json \<Rightarrow> 'a option) \<Rightarrow> (string \<times> json) list \<Rightarrow> (string \<times> 'a) list option" where
  "decode_entries f ps = those (map (\<lambda>(k, v). map_option (Pair k) (f v)) ps)"

definition decode_metric :: "json \<Rightarrow> MetricResults option" where
  "decode_metric metric =
     (case (str_of (get_prop metric ''name''),
            Option.bind (props_of (get_prop metric ''results'')) (decode_entries decode_result)) of
        (Some n, Some rs) \<Rightarrow> Some \<lparr>mr_name = n, mr_results = rs\<rparr>
      | _ \<Rightarrow> None)"

definition decode_reach_variation :: "json \<Rightarrow> ReachVariation option" where
  "decode_reach_variation variation =
     (case (str_of (get_prop variation ''name''), num_of (get_prop variation ''count'')) of
        (Some n, Some c) \<Rightarrow>
          Some \<lparr>rv_name = n, rv_count = c,
                rv_is_baseline = truthy_opt (get_prop variation ''is_baseline'')\<rparr>
      | _ \<Rightarrow> None)"

definition as_results :: "json \<Rightarrow> OptimizelyResults option" where
  "as_results j =
     (case (str_of (get_prop j ''start_time''), str_of (get_prop j ''end_time''),
            int_of (get_prop j ''experiment_id''),
            Option.bind (items_of (get_prop j ''metrics'')) (\<lambda>ms. those (map decode_metric ms)),
            Option.bind (props_of (Option.bind (get_prop j ''reach'') (\<lambda>r. get_prop r ''variations'')))
                        (decode_entries decode_reach_variation),
            num_of (Option.bind (get_prop j ''reach'') (\<lambda>r. get_prop r ''total_count'')),
            num_of (Option.bind (get_prop j ''stats_config'') (\<lambda>c. get_prop c ''confidence_level''))) of
        (Some st, Some en, Some eid, Some ms, Some vs, Some tc, Some cl) \<Rightarrow>
          Some \<lparr>or_start_time = st, or_end_time = en, or_experiment_id = eid, or_metrics = ms,
                or_reach_variations = vs, or_total_count = tc, or_confidence_level = cl\<rparr>
      | _ \<Rightarrow> None)"

text \<open>\<^verbatim>\<open>interface GenerateReportParameters\<close>; the three required ones are checked by the handler.\<close>

record GenerateReportParameters =
  recipientEmail :: "string option"
  experimentName :: "string option"
  optimizelyResultsJson :: "string option"
  hypothesis :: "string option"
  recommendationStatus :: "string option"
  recommendationTitle :: "string option"
  recommendationDescription :: "string option"
  actions :: "string option"

record ExperimentData =
  ed_experimentId :: string
  ed_experimentName :: string
  ed_hypothesis :: string
  ed_duration :: string
  ed_dateRange :: string
  ed_sampleSize :: rat
  ed_confidenceLevel :: rat
  ed_metrics :: "Metric list"
  ed_variations :: "Variation list"
  ed_recommendation :: Recommendation
  ed_actions :: json

definition required_fields :: string where
  "required_fields = ''recipientEmail, experimentName, and optimizelyResultsJson are required fields''"

definition default_actions :: json where
  "default_actions =
     JArr [JStr ''Review detailed results in the dashboard'',
           JStr ''Plan follow-up experiments'',
           JStr ''Document learnings for future tests'']"

text \<open>
  The block that normalises \<^verbatim>\<open>actions\<close> (lines 152 to 174): JSON when the string starts with
  a bracket, else split at the commas and trimmed; the defaults when there is none. What
  \<^verbatim>\<open>JSON.parse\<close> returns is kept as it is.
\<close>

definition parse_actions :: "string option \<Rightarrow> error + json" where
  "parse_actions actionsStr =
     (if present actionsStr
      then (if startsWith (the actionsStr) ''[''
            then (case JSON_parse (the actionsStr) of
                    Inl e \<Rightarrow> Inl (Error (''Invalid actions format: '' @ e))
                  | Inr v \<Rightarrow> Inr v)
            else Inr (JArr (map (\<lambda>a. JStr (trim a)) (split_on (CHR '','') (the actionsStr)))))
      else Inr default_actions)"

text \<open>\<^verbatim>\<open>x || "dflt"\<close> on an optional string.\<close>

definition str_or :: "string option \<Rightarrow> string \<Rightarrow> string" where
  "str_or x d = (if present x then the x else d)"

definition experimentData_of ::
  "GenerateReportParameters \<Rightarrow> Transformed \<Rightarrow> json \<Rightarrow> ExperimentData" where
  "experimentData_of parameters transformedData acts =
     \<lparr>ed_experimentId = t_experimentId transformedData,
      ed_experimentName = the (experimentName parameters),
      ed_hypothesis = str_or (hypothesis parameters) ''No hypothesis provided'',
      ed_duration = t_duration transformedData,
      ed_dateRange = t_dateRange transformedData,
      ed_sampleSize = t_sampleSize transformedData,
      ed_confidenceLevel = t_confidenceLevel transformedData,
      ed_metrics = t_metrics transformedData,
      ed_variations = t_variations transformedData,
      ed_recommendation =
        \<lparr>rec_status = str_or (recommendationStatus parameters) ''Under Review'',
         rec_title = str_or (recommendationTitle parameters) ''Results require further analysis'',
         rec_description = str_or (recommendationDescription parameters)
           ''Based on the experiment results, further analysis is recommended before making a final decision.''\<rparr>,
      ed_actions = acts\<rparr>"

text \<open>The request body \<^verbatim>\<open>{recipientEmail, experimentData}\<close> as a JSON value.\<close>

definition json_of_metric :: "Metric \<Rightarrow> json" where
  "json_of_metric m =
     JObj [(''name'', JStr (m_name m)), (''lift'', JStr (m_lift m)),
           (''variations'',
            JArr (map (\<lambda>v. JObj [(''name'', JStr (mv_name v)), (''value'', JNum (mv_value v)),
                                  (''significance'', JNum (mv_significance v))])
                      (m_variations m)))]"

definition json_of_variation :: "Variation \<Rightarrow> json" where
  "json_of_variation v =
     JObj [(''name'', JStr (v_name v)), (''sampleSize'', JNum (v_sampleSize v)),
           (''description'', JStr (v_description v))]"

definition json_of_experimentData :: "ExperimentData \<Rightarrow> json" where
  "json_of_experimentData d =
     JObj [(''experimentId'', JStr (ed_experimentId d)),
           (''experimentName'', JStr (ed_experimentName d)),
           (''hypothesis'', JStr (ed_hypothesis d)),
           (''duration'', JStr (ed_duration d)),
           (''dateRange'', JStr (ed_dateRange d)),
           (''sampleSize'', JNum (ed_sampleSize d)),
           (''confidenceLevel'', JNum (ed_confidenceLevel d)),
           (''metrics'', JArr (map json_of_metric (ed_metrics d))),
           (''variations'', JArr (map json_of_variation (ed_variations d))),
           (''recommendation'',
            JObj [(''status'', JStr (rec_status (ed_recommendation d))),
                  (''title'', JStr (rec_title (ed_recommendation d))),
                  (''description'', JStr (rec_description (ed_recommendation d)))]),
           (''actions'', ed_actions d)]"

text \<open>
  The result. \<^verbatim>\<open>reportPageUrl\<close> is the fixed prefix followed by \<^verbatim>\<open>${reportId}\<close>; the record
  keeps the two parts. Destructuring a JSON body \<^verbatim>\<open>null\<close> throws.
\<close>

record ReportResult =
  rr_reportId :: "json option"
  rr_pdfUrl :: "json option"
  rr_reportPageUrl :: "string \<times> json option"
  rr_message :: "json option"
  rr_fullResponse :: body

definition report_page_prefix :: string where
  "report_page_prefix = ''https://id-preview--7eb40827-8f66-4c20-a834-b5cfbf929d7e.lovable.app/report/''"

definition report_result :: "response \<Rightarrow> body \<Rightarrow> error + ReportResult" where
  "report_result r b =
     (case b of
        BText t \<Rightarrow>
          Inr \<lparr>rr_reportId = None, rr_pdfUrl = None, rr_reportPageUrl = (report_page_prefix, None),
               rr_message = None, rr_fullResponse = b\<rparr>
      | BJson j \<Rightarrow>
          if j = JNull
          then Inl (Error ''Cannot destructure property 'reportId' of 'responseBody' as it is null.'')
          else Inr \<lparr>rr_reportId = get_prop j ''reportId'', rr_pdfUrl = get_prop j ''pdfUrl'',
                    rr_reportPageUrl = (report_page_prefix, get_prop j ''reportId''),
                    rr_message = get_prop j ''message'', rr_fullResponse = b\<rparr>)"

text \<open>
  The handler. On a results payload that does not have the vendor's types the code throws a
  \<^verbatim>\<open>TypeError\<close> or carries \<^verbatim>\<open>undefined\<close> and \<^verbatim>\<open>NaN\<close> into the report; this development
  does not follow it there, and the outcome is \<^term>\<open>None\<close>.
\<close>

definition generateExperimentReport ::
  "platform \<Rightarrow> GenerateReportParameters \<Rightarrow> ((error + ReportResult) \<times> request list) option" where
  "generateExperimentReport pf parameters =
     (if \<not> present (recipientEmail parameters) \<or> \<not> present (experimentName parameters)
         \<or> \<not> present (optimizelyResultsJson parameters)
      then Some (Inl (Error required_fields), [])
      else (case JSON_parse (the (optimizelyResultsJson parameters)) of
         Inl e \<Rightarrow> Some (Inl (Error (''Invalid Optimizely results JSON: '' @ e)), [])
       | Inr resultsData \<Rightarrow>
           (case as_results resultsData of
              None \<Rightarrow> None
            | Some typed \<Rightarrow>
                (let transformedData = transformOptimizelyResults pf typed
                 in case parse_actions (actions parameters) of
                      Inl e \<Rightarrow> Some (Inl e, [])
                    | Inr acts \<Rightarrow>
                        Some (dispatch (pf_fetch pf)
                          \<lparr>req_method = ''POST'',
                           req_url = ''https://mjjlumqjnsqkgforfhdw.supabase.co/functions/v1/generate-report'',
                           req_headers = [(''Content-Type'', ''application/json'')],
                           req_body = Some (JObj
                             [(''recipientEmail'', JStr (the (recipientEmail parameters))),
                              (''experimentData'',
                               json_of_experimentData
                                 (experimentData_of parameters transformedData acts))])\<rparr>
                          ''Failed to generate report'' ''Failed to generate experiment report''
                          report_result)))))"

subsection \<open>The resolution order in the words of the specification\<close>

text \<open>
  The specification gives the order as: the explicit parameter, then the value the
  authentication context provides, then the alternately spelled keys. This is that order,
  for comparison with \<^term>\<open>projectIdStr_of\<close>.
\<close>

definition spec_projectIdStr :: "AuthData option \<Rightarrow> string option \<Rightarrow> string option" where
  "spec_projectIdStr authData paramProjectId =
     or_else (or_else (or_else paramProjectId (context_project_id authData))
                      (Option.bind authData auth_project_id))
             (Option.bind authData auth_projectId)"

subsection \<open>Example inputs\<close>

text \<open>
  A host whose network is down (\<^verbatim>\<open>fetch\<close> rejects), whose clock knows the two instants of
  the usage example of the repository (\<^verbatim>\<open>examples/generate-experiment-report-example.md\<close>),
  and whose \<^verbatim>\<open>Number.prototype.toString\<close> is a table with the one entry that the examples
  look up: \<open>10\<^sup>2\<^sup>1\<close> is printed \<^verbatim>\<open>1e+21\<close>.
\<close>

definition example_getTime :: "string \<Rightarrow> int option" where
  "example_getTime s =
     (if s = ''2025-10-15T10:30:29.247000Z'' then Some 1760524229247
      else if s = ''2025-10-16T16:05:42.885000Z'' then Some 1760630742885
      else None)"

definition example_dateString :: "int option \<Rightarrow> string" where
  "example_dateString t =
     (if t = Some 1760524229247 then ''Oct 15, 2025''
      else if t = Some 1760630742885 then ''Oct 16, 2025''
      else ''Invalid Date'')"

definition example_numberToString :: "rat \<Rightarrow> string" where
  "example_numberToString x = (if x = 10 ^ 21 then ''1e+21'' else ''Infinity'')"

definition offline :: platform where
  "offline =
     \<lparr>pf_fetch = (\<lambda>rq. Inl ''network unreachable''), getTime = example_getTime,
      toLocaleDateString = example_dateString, numberToString = example_numberToString\<rparr>"

definition example_platform :: platform where
  "example_platform = offline"

text \<open>An authentication context with a token and a project in its \<^verbatim>\<open>context\<close>.\<close>

definition auth_of :: "string option \<Rightarrow> string option \<Rightarrow> AuthData option" where
  "auth_of tok pid =
     Some \<lparr>credentials = Some \<lparr>access_token = tok\<rparr>,
           auth_context = Some \<lparr>ctx_project_id = pid\<rparr>,
           auth_project_id = None, auth_projectId = None\<rparr>"

definition example_update :: UpdateExperimentParameters where
  \<open>example_update = \<lparr>experiment_id = ''12345'', metrics = Some ''[{"event_id":1}]'', otherFields = []\<rparr>\<close>

definition example_create :: CreateExperimentParameters where
  "example_create =
     \<lparr>ce_project_id = Some ''111'', ce_description = ''Hero test'', ce_experiment_name = ''hero'',
      ce_status = None, ce_type = None, ce_variations = None\<rparr>"

definition example_create_p0 :: CreateExperimentParameters_p0 where
  "example_create_p0 =
     \<lparr>p0_project_id = Some ''111'', p0_name = ''hero'', p0_description = None, p0_edit_url = None,
      p0_status = None, p0_type = None, p0_variations = None\<rparr>"

definition example_list :: ListEventsParameters where
  "example_list = \<lparr>le_project_id = Some ''111'', include_classic = None\<rparr>"

definition no_dump :: "AuthData option \<Rightarrow> string" where
  "no_dump a = ''{}''"

definition update_with_id :: "string \<Rightarrow> UpdateExperimentParameters" where
  "update_with_id i = \<lparr>experiment_id = i, metrics = None, otherFields = []\<rparr>"

definition list_with_id :: "string \<Rightarrow> ListEventsParameters" where
  "list_with_id i = \<lparr>le_project_id = Some i, include_classic = None\<rparr>"

text \<open>A context that carries the token and nothing else.\<close>

definition auth_token_only :: "AuthData option" where
  "auth_token_only =
     Some \<lparr>credentials = Some \<lparr>access_token = Some ''tok''\<rparr>, auth_context = None,
           auth_project_id = None, auth_projectId = None\<rparr>"

definition example_update_override :: UpdateExperimentParameters where
  \<open>example_update_override =
     \<lparr>experiment_id = ''12345'', metrics = Some ''[{"event_id":1}]'',
      otherFields = [(''account_id'', JNum 5)]\<rparr>\<close>

definition example_create_p1 :: CreateExperimentParameters_p1 where
  "example_create_p1 =
     \<lparr>p1_project_id = ''111'', p1_api_token = ''tok'', p1_description = ''Hero test'',
      p1_experiment_name = ''hero'', p1_status = None, p1_type = None, p1_variations = None\<rparr>"

text \<open>
  The metric of the usage example, the same metric without its lift, a metric whose lift
  is written \<^verbatim>\<open>1e19\<close>, and a small payload in text form.
\<close>

definition example_metric :: MetricResults where
  "example_metric =
     \<lparr>mr_name = ''Click on homepage CTA'',
      mr_results =
        [(''4565994467753984'',
          \<lparr>vr_name = ''Original'', vr_rate = 296028880866426 / 1000000000000000, vr_lift = None\<rparr>),
         (''4713473611923456'',
          \<lparr>vr_name = ''Variation #2'', vr_rate = 4852941176470588 / 10000000000000000,
           vr_lift = Some \<lparr>lift_significance = 7571863592749448 / 10000000000000000,
                           lift_value = 6393472022955524 / 10000000000000000\<rparr>\<rparr>)]\<rparr>"

definition example_metric_no_lift :: MetricResults where
  "example_metric_no_lift =
     \<lparr>mr_name = ''Click on homepage CTA'',
      mr_results =
        [(''4565994467753984'',
          \<lparr>vr_name = ''Original'', vr_rate = 296028880866426 / 1000000000000000, vr_lift = None\<rparr>)]\<rparr>"

definition example_metric_huge :: MetricResults where
  "example_metric_huge =
     \<lparr>mr_name = ''Click on homepage CTA'',
      mr_results =
        [(''4713473611923456'',
          \<lparr>vr_name = ''Variation #2'', vr_rate = 1 / 2,
           vr_lift = Some \<lparr>lift_significance = 1 / 2, lift_value = 10 ^ 19\<rparr>\<rparr>)]\<rparr>"

definition example_results :: OptimizelyResults where
  "example_results =
     \<lparr>or_start_time = ''2025-10-15T10:30:29.247000Z'', or_end_time = ''2025-10-16T16:05:42.885000Z'',
      or_experiment_id = 4760416228737024, or_metrics = [example_metric],
      or_reach_variations =
        [(''4565994467753984'', \<lparr>rv_name = ''Original'', rv_count = 277, rv_is_baseline = False\<rparr>)],
      or_total_count = 823, or_confidence_level = 9 / 10\<rparr>"

definition example_payload_text :: string where
  \<open>example_payload_text = ''{"start_time":"2025-10-15T10:30:29.247000Z","end_time":"2025-10-16T16:05:42.885000Z","experiment_id":7,"metrics":[],"reach":{"variations":{},"total_count":823},"stats_config":{"confidence_level":0.9}}''\<close>

definition example_payload :: OptimizelyResults where
  "example_payload =
     \<lparr>or_start_time = ''2025-10-15T10:30:29.247000Z'', or_end_time = ''2025-10-16T16:05:42.885000Z'',
      or_experiment_id = 7, or_metrics = [], or_reach_variations = [],
      or_total_count = 823, or_confidence_level = round_double (9 / 10)\<rparr>"

definition example_report :: GenerateReportParameters where
  "example_report =
     \<lparr>recipientEmail = Some ''analyst@example.com'', experimentName = Some ''Homepage CTA Test'',
      optimizelyResultsJson = Some example_payload_text, hypothesis = None,
      recommendationStatus = None, recommendationTitle = None, recommendationDescription = None,
      actions = Some ''A, B, C''\<rparr>"

definition example_payload_json :: json where
  "example_payload_json =
     JObj [(''start_time'', JStr ''2025-10-15T10:30:29.247000Z''),
           (''end_time'', JStr ''2025-10-16T16:05:42.885000Z''),
           (''experiment_id'', JNum 7), (''metrics'', JArr []),
           (''reach'', JObj [(''variations'', JObj []), (''total_count'', JNum 823)]),
           (''stats_config'', JObj [(''confidence_level'', JNum (round_double (9 / 10)))])]"

section \<open>Properties\<close>

subsection \<open>Evaluation\<close>

lemmas show_nat_numeral [simp] = show_nat.simps [of "numeral k" for k]
lemmas show_nat_0 [simp] = show_nat.simps [of 0, simplified]
lemmas show_nat_1 [simp] = show_nat.simps [of 1, simplified]

lemma present_simps [simp]:
  "present None = False" "present (Some s) = (s \<noteq> [])"
  by (simp_all add: present_def)

subsection \<open>Rounding to a double\<close>

lemma bitlen_pos: "0 < n \<Longrightarrow> 0 < bitlen n"
proof (induction n rule: bitlen.induct)
  case (1 n)
  have "0 \<le> bitlen (n div 2)"
  proof (cases "n div 2 \<le> 0")
    case True then show ?thesis by (simp add: bitlen.simps [of "n div 2"])
  next
    case False
    with 1 have "0 < bitlen (n div 2)" by simp
    then show ?thesis by simp
  qed
  with 1(2) show ?case by (simp add: bitlen.simps [of n])
qed

lemma bitlen_bounds:
  "0 < n \<Longrightarrow> 2 ^ nat (bitlen n - 1) \<le> n \<and> n < 2 ^ nat (bitlen n)"
proof (induction n rule: bitlen.induct)
  case (1 n)
  show ?case
  proof (cases "n div 2 \<le> 0")
    case True
    with 1(2) have n: "n = 1" by linarith
    have "bitlen 1 = 1" by (simp add: bitlen.simps [of 1] bitlen.simps [of 0])
    with n show ?thesis by simp
  next
    case False
    then have h: "0 < n div 2" by simp
    define b where "b = bitlen (n div 2)"
    from 1(1) [OF _ h] 1(2) have ih: "2 ^ nat (b - 1) \<le> n div 2" "n div 2 < 2 ^ nat b"
      by (simp_all add: b_def)
    from bitlen_pos [OF h] have bp: "0 < b" by (simp add: b_def)
    from 1(2) have bn: "bitlen n = b + 1" by (simp add: bitlen.simps [of n] b_def)
    from bp have e1: "nat (b + 1 - 1) = Suc (nat (b - 1))" by (simp add: nat_diff_distrib Suc_nat_eq_nat_zadd1)
    from bp have e2: "nat (b + 1) = Suc (nat b)" by (simp add: nat_add_distrib)
    from ih(1) have "2 * 2 ^ nat (b - 1) \<le> n" by linarith
    moreover from ih(2) have "n < 2 * 2 ^ nat b" by linarith
    ultimately show ?thesis unfolding bn e1 e2 by simp
  qed
qed

lemma floor_log2_lower: assumes "0 < x" shows "2 powi floor_log2 x \<le> x"
proof (cases "1 \<le> x")
  case True
  define n where "n = \<lfloor>x\<rfloor>"
  from True have np: "0 < n" by (simp add: n_def)
  from bitlen_bounds [OF np] have "2 ^ nat (bitlen n - 1) \<le> n" by simp
  then have "(of_int (2 ^ nat (bitlen n - 1)) :: rat) \<le> of_int n" by (simp only: of_int_le_iff)
  also have "\<dots> \<le> x" by (simp add: n_def)
  finally have "(2::rat) ^ nat (bitlen n - 1) \<le> x" by simp
  moreover from bitlen_pos [OF np] have "0 \<le> bitlen n - 1" by simp
  ultimately show ?thesis using True by (simp add: floor_log2_def n_def power_int_def)
next
  case False
  define N where "N = \<lceil>1 / x\<rceil>"
  from False assms have "1 < 1 / x" by simp
  then have N2: "0 < N - 1" unfolding N_def by (simp add: less_ceiling_iff)
  define c where "c = bitlen (N - 1)"
  from bitlen_pos [OF N2] have cp: "0 < c" by (simp add: c_def)
  from bitlen_bounds [OF N2] have "N - 1 < 2 ^ nat c" by (simp add: c_def)
  then have "N \<le> 2 ^ nat c" by simp
  then have "(of_int N :: rat) \<le> of_int (2 ^ nat c)" by (simp only: of_int_le_iff)
  then have "(of_int N :: rat) \<le> 2 ^ nat c" by simp
  moreover have "1 / x \<le> of_int N" by (simp add: N_def)
  ultimately have "1 / x \<le> 2 ^ nat c" by linarith
  with assms have "1 \<le> 2 ^ nat c * x" by (simp add: field_simps)
  then have "1 / 2 ^ nat c \<le> x" by (simp add: field_simps)
  moreover have "(2::rat) powi (- c) = 1 / 2 ^ nat c" using cp by (simp add: power_int_def field_simps)
  ultimately show ?thesis using False by (simp add: floor_log2_def N_def c_def)
qed

lemma floor_log2_upper: assumes "0 < x" shows "x < 2 powi (floor_log2 x + 1)"
proof (cases "1 \<le> x")
  case True
  define n where "n = \<lfloor>x\<rfloor>"
  from True have np: "0 < n" by (simp add: n_def)
  from bitlen_bounds [OF np] have "n + 1 \<le> 2 ^ nat (bitlen n)" by simp
  then have "(of_int (n + 1) :: rat) \<le> of_int (2 ^ nat (bitlen n))" by (simp only: of_int_le_iff)
  then have "(of_int n :: rat) + 1 \<le> 2 ^ nat (bitlen n)" by simp
  moreover have "x < of_int n + 1" unfolding n_def by linarith
  ultimately have "x < 2 ^ nat (bitlen n)" by linarith
  moreover from bitlen_pos [OF np] have "0 \<le> bitlen n" by simp
  ultimately show ?thesis using True by (simp add: floor_log2_def n_def power_int_def)
next
  case False
  define N where "N = \<lceil>1 / x\<rceil>"
  from False assms have "1 < 1 / x" by simp
  then have N2: "0 < N - 1" unfolding N_def by (simp add: less_ceiling_iff)
  define c where "c = bitlen (N - 1)"
  from bitlen_pos [OF N2] have cp: "0 < c" by (simp add: c_def)
  from bitlen_bounds [OF N2] have "2 ^ nat (c - 1) \<le> N - 1" by (simp add: c_def)
  then have "(of_int (2 ^ nat (c - 1)) :: rat) \<le> of_int (N - 1)" by (simp only: of_int_le_iff)
  then have "(2::rat) ^ nat (c - 1) \<le> of_int N - 1" by simp
  moreover have "of_int N - 1 < 1 / x" unfolding N_def by linarith
  ultimately have "2 ^ nat (c - 1) < 1 / x" by linarith
  with assms have "2 ^ nat (c - 1) * x < 1" by (simp add: field_simps)
  then have "x < 1 / 2 ^ nat (c - 1)" by (simp add: field_simps)
  moreover have "(2::rat) powi (- c + 1) = 1 / 2 ^ nat (c - 1)"
  proof (cases "c = 1")
    case True then show ?thesis by simp
  next
    case False
    with cp have "- c + 1 < 0" by simp
    moreover have "nat (- (- c + 1)) = nat (c - 1)" by simp
    ultimately show ?thesis by (simp add: power_int_def field_simps)
  qed
  ultimately show ?thesis using False by (simp add: floor_log2_def N_def c_def)
qed


lemma powi_less_exp: "(2::rat) powi m < 2 powi n \<Longrightarrow> m < n"
  using power_int_increasing [of n m "2::rat"] by (cases "m < n") auto

lemma powi_pos: "(0::rat) < 2 powi k"
  by (simp add: zero_less_power_int)

lemma roundTiesToEven_of_int: "roundTiesToEven (of_int i) = i"
  by (simp add: roundTiesToEven_def)

lemma roundTiesToEven_le: assumes "m \<le> of_int i" shows "roundTiesToEven m \<le> i"
proof -
  have c: "\<lceil>m\<rceil> \<le> i" using assms by (simp add: ceiling_le_iff)
  show ?thesis
  proof (cases "m = of_int \<lfloor>m\<rfloor>")
    case True
    then have "roundTiesToEven m = \<lfloor>m\<rfloor>" by (simp add: roundTiesToEven_def Let_def)
    moreover have "\<lfloor>m\<rfloor> \<le> \<lceil>m\<rceil>" by (rule floor_le_ceiling)
    ultimately show ?thesis using c by linarith
  next
    case False
    then have "\<lceil>m\<rceil> = \<lfloor>m\<rfloor> + 1" by (metis ceiling_altdef of_int_floor_cancel)
    moreover have "roundTiesToEven m \<le> \<lfloor>m\<rfloor> + 1" by (simp add: roundTiesToEven_def Let_def)
    ultimately show ?thesis using c by simp
  qed
qed

lemma roundTiesToEven_gt: assumes "of_int i + 1 / 2 < m" shows "i + 1 \<le> roundTiesToEven m"
proof -
  have f: "i \<le> \<lfloor>m\<rfloor>" using assms by (simp add: le_floor_iff)
  show ?thesis
  proof (cases "i + 1 \<le> \<lfloor>m\<rfloor>")
    case True
    moreover have "\<lfloor>m\<rfloor> \<le> roundTiesToEven m" by (simp add: roundTiesToEven_def Let_def)
    ultimately show ?thesis by simp
  next
    case False
    with f have e: "\<lfloor>m\<rfloor> = i" by simp
    with assms have "1 / 2 < m - of_int \<lfloor>m\<rfloor>" by simp
    then have "roundTiesToEven m = \<lfloor>m\<rfloor> + 1" by (simp add: roundTiesToEven_def Let_def)
    with e show ?thesis by simp
  qed
qed

lemma round_double_exact:
  assumes n: "n \<noteq> 0" "\<bar>n\<bar> < 2 ^ 53" and j: "- 1074 \<le> j"
  shows "round_double (of_int n * 2 powi j) = of_int n * 2 powi j"
proof -
  define x :: rat where "x = of_int n * 2 powi j"
  define a where "a = \<bar>x\<bar>"
  have a: "a = of_int \<bar>n\<bar> * 2 powi j" using powi_pos [of j] by (simp add: a_def x_def abs_mult)
  have x0: "x \<noteq> 0" using n(1) by (simp add: x_def)
  then have a0: "0 < a" by (simp add: a_def)
  define k where "k = max (floor_log2 a - 52) (- 1074)"
  have "(of_int \<bar>n\<bar> :: rat) < of_int (2 ^ 53)" using n(2) by (simp only: of_int_less_iff)
  then have "of_int \<bar>n\<bar> * 2 powi j < (2::rat) ^ 53 * 2 powi j" using powi_pos [of j] by simp
  also have "\<dots> = 2 powi (53 + j)" by (simp add: power_int_add)
  finally have "a < 2 powi (53 + j)" by (simp add: a)
  with floor_log2_lower [OF a0] have "(2::rat) powi floor_log2 a < 2 powi (53 + j)" by linarith
  then have "floor_log2 a < 53 + j" by (rule powi_less_exp)
  with j have kj: "k \<le> j" by (simp add: k_def)
  have "a / 2 powi k = of_int \<bar>n\<bar> * 2 powi (j - k)" by (simp add: a power_int_diff)
  also have "\<dots> = of_int (\<bar>n\<bar> * 2 ^ nat (j - k))" using kj by (simp add: power_int_def)
  finally have m: "a / 2 powi k = of_int (\<bar>n\<bar> * 2 ^ nat (j - k))" .
  have "round_double x = sgn x * of_int (roundTiesToEven (a / 2 powi k)) * 2 powi k"
    using x0 by (simp add: round_double_def Let_def a_def k_def)
  also have "\<dots> = sgn x * (a / 2 powi k) * 2 powi k"
    unfolding m roundTiesToEven_of_int ..
  also have "\<dots> = sgn x * a" by simp
  also have "\<dots> = x" by (simp add: a_def sgn_mult_abs)
  finally show ?thesis by (simp add: x_def)
qed

lemma round_double_of_int:
  assumes "\<bar>z\<bar> \<le> 2 ^ 53" shows "round_double (of_int z) = of_int z"
proof (cases "z = 0")
  case True then show ?thesis by (simp add: round_double_def)
next
  case False
  show ?thesis
  proof (cases "\<bar>z\<bar> < 2 ^ 53")
    case True
    from round_double_exact [OF False True, of 0] show ?thesis by simp
  next
    case False
    with assms have "z = 2 ^ 53 \<or> z = - (2 ^ 53)" by linarith
    then show ?thesis
    proof
      assume "z = 2 ^ 53"
      with round_double_exact [of 1 53] show ?thesis by simp
    next
      assume "z = - (2 ^ 53)"
      with round_double_exact [of "- 1" 53] show ?thesis by simp
    qed
  qed
qed

lemma ceiling_round_double_div:
  fixes a b :: int
  assumes a: "0 < a" "a \<le> 2 ^ 53" and b: "2 ^ 26 < b" "b < 2 ^ 27"
  shows "\<lceil>round_double (of_int a / of_int b)\<rceil> = \<lceil>(of_int a / of_int b :: rat)\<rceil>"
proof -
  define x :: rat where "x = of_int a / of_int b"
  define K where "K = \<lceil>x\<rceil>"
  from b have bp: "0 < b" by simp
  then have bq: "(0::rat) < of_int b" by simp
  have xp: "0 < x" using a(1) bp by (simp add: x_def)
  have xK: "x \<le> of_int K" by (simp add: K_def)
  have "of_int K - 1 < x" unfolding K_def by linarith
  then have "of_int (K - 1) * of_int b < (of_int a :: rat)" using bq by (simp add: x_def field_simps)
  then have "(of_int ((K - 1) * b) :: rat) < of_int a" by simp
  then have "(K - 1) * b < a" by (simp only: of_int_less_iff)
  then have "(K - 1) * b + 1 \<le> a" by simp
  then have "(of_int ((K - 1) * b + 1) :: rat) \<le> of_int a" by (simp only: of_int_le_iff)
  then have "(of_int (K - 1) * of_int b + 1) / of_int b \<le> (of_int a :: rat) / of_int b"
    using bq by (simp only: divide_le_cancel of_int_mult of_int_add of_int_1) simp
  moreover have "(of_int (K - 1) * of_int b + 1) / of_int b = (of_int (K - 1) :: rat) + 1 / of_int b"
    using bq by (simp add: add_divide_distrib)
  ultimately have lowx: "of_int (K - 1) + 1 / of_int b \<le> x" by (simp add: x_def)
  define e where "e = floor_log2 x"
  have "a < 2 ^ 27 * b" using a(2) b(1) by simp
  then have "(of_int a :: rat) < of_int (2 ^ 27 * b)" by (simp only: of_int_less_iff)
  then have "of_int a < (2::rat) ^ 27 * of_int b" by simp
  then have "x < 2 ^ 27" using bq by (simp add: x_def field_simps)
  with floor_log2_lower [OF xp] have "(2::rat) powi e < 2 powi 27" by (simp add: e_def)
  then have e27: "e < 27" by (rule powi_less_exp)
  have "b < 2 ^ 27 * a" using a(1) b(2) by simp
  then have "(of_int b :: rat) < of_int (2 ^ 27 * a)" by (simp only: of_int_less_iff)
  then have "of_int b < (2::rat) ^ 27 * of_int a" by simp
  then have "1 / 2 ^ 27 < x" using bq by (simp add: x_def field_simps)
  with floor_log2_upper [OF xp] have "(2::rat) powi (- 27) < 2 powi (e + 1)" by (simp add: e_def power_int_minus_divide)
  then have em: "- 27 < e + 1" by (rule powi_less_exp)
  define k where "k = max (e - 52) (- 1074)"
  from e27 em have k: "k = e - 52" "k \<le> - 26" by (simp_all add: k_def)
  define N :: int where "N = 2 ^ nat (- k)"
  have Nk: "(2::rat) powi k = 1 / of_int N" using k(2) by (simp add: N_def power_int_def field_simps)
  have "(2::int) ^ 26 \<le> 2 ^ nat (- k)" using k(2) by (intro power_increasing) auto
  then have N26: "2 ^ 26 \<le> N" by (simp add: N_def)
  then have Np: "(0::rat) < of_int N" by simp
  define m where "m = x * of_int N"
  have rd: "round_double x = of_int (roundTiesToEven m) / of_int N"
    using xp by (simp add: round_double_def Let_def k_def [symmetric] e_def [symmetric] Nk m_def)
  have "m \<le> of_int K * of_int N" using xK Np by (simp add: m_def)
  then have "m \<le> of_int (K * N)" by simp
  then have up: "roundTiesToEven m \<le> K * N" by (rule roundTiesToEven_le)
  have "2 * b < 4 * N" using b(2) N26 by simp
  then have "(of_int (2 * b) :: rat) < of_int (4 * N)" by (simp only: of_int_less_iff)
  then have "1 / 2 < (of_int N :: rat) / of_int b" using bq by (simp add: field_simps)
  moreover have "(of_int (K - 1) + 1 / of_int b) * of_int N \<le> m"
    unfolding m_def using lowx Np by (simp only: mult_le_cancel_right_pos)
  moreover have "(of_int (K - 1) + 1 / of_int b) * of_int N = (of_int ((K - 1) * N) :: rat) + of_int N / of_int b"
    by (simp add: distrib_right)
  ultimately have "of_int ((K - 1) * N) + 1 / 2 < m" by linarith
  then have low: "(K - 1) * N + 1 \<le> roundTiesToEven m" by (rule roundTiesToEven_gt)
  from up have "(of_int (roundTiesToEven m) :: rat) \<le> of_int (K * N)" by (simp only: of_int_le_iff)
  then have 1: "round_double x \<le> of_int K" using Np by (simp add: rd field_simps)
  from low have "(of_int ((K - 1) * N + 1) :: rat) \<le> of_int (roundTiesToEven m)" by (simp only: of_int_le_iff)
  then have "of_int (K - 1) * of_int N < (of_int (roundTiesToEven m) :: rat)" by simp
  then have 2: "of_int K - 1 < round_double x" using Np by (simp add: rd field_simps)
  from 1 2 have "\<lceil>round_double x\<rceil> = K" by (simp add: ceiling_eq_iff)
  then show ?thesis by (simp add: x_def K_def)
qed

lemma roundTiesToEven_nonneg: "0 \<le> m \<Longrightarrow> 0 \<le> roundTiesToEven m"
  by (simp add: roundTiesToEven_def Let_def)

lemma round_double_nonneg: "0 \<le> x \<Longrightarrow> 0 \<le> round_double x"
proof (cases "x = 0")
  case True
  then show ?thesis by (simp add: round_double_def)
next
  case False
  assume "0 \<le> x"
  with False have x: "0 < x" by simp
  define k where "k = max (floor_log2 \<bar>x\<bar> - 52) (- 1074)"
  have "0 \<le> \<bar>x\<bar> / 2 powi k" using powi_pos [of k] by simp
  then have "0 \<le> roundTiesToEven (\<bar>x\<bar> / 2 powi k)" by (rule roundTiesToEven_nonneg)
  then have "(0::rat) \<le> of_int (roundTiesToEven (\<bar>x\<bar> / 2 powi k)) * 2 powi k"
    using powi_pos [of k] by simp
  then show ?thesis using x by (simp add: round_double_def Let_def k_def)
qed

lemma double_int_exact: "\<bar>z\<bar> \<le> 2 ^ 53 \<Longrightarrow> double_int z = z"
  by (simp add: double_int_def round_double_of_int)

lemma round_double_numeral [simp]:
  "numeral n \<le> (9007199254740992 :: int) \<Longrightarrow> round_double (numeral n) = numeral n"
  using round_double_of_int [of "numeral n"] by simp

lemma round_double_0 [simp]: "round_double 0 = 0"
  by (simp add: round_double_def)

lemma round_double_1 [simp]: "round_double 1 = 1"
  using round_double_of_int [of 1] by simp

lemma double_int_numeral [simp]:
  "numeral n \<le> (9007199254740992 :: int) \<Longrightarrow> double_int (numeral n) = numeral n"
  using double_int_exact [of "numeral n"] by simp

lemma double_int_0 [simp]: "double_int 0 = 0"
  by (simp add: double_int_def)

lemma double_int_1 [simp]: "double_int 1 = 1"
  using double_int_exact [of 1] by simp

lemma number_text_exact: "\<bar>n\<bar> \<le> 2 ^ 53 \<Longrightarrow> number_text pf n = show_int n"
  by (simp add: number_text_def)

lemmas eval_parseInt = parseInt_def is_ws_def is_digit_def nat_of_digits_def digit_val_def

lemmas eval_JSON = JSON_parse_def lex_idle_def is_json_ws_def is_word_char_def classify_word_def
  parse_number_def head_is_def is_digit_def nat_of_digits_def digit_val_def unescape_def
  start_value_def close_array_def close_object_def take_key_def

subsection \<open>Authentication comes first\<close>

text \<open>
  C7. In every handler that takes an authentication context (both forms of
  \<^verbatim>\<open>update_experiment\<close>, the three forms of \<^verbatim>\<open>create_experiment\<close> that have one, and
  \<^verbatim>\<open>list_events\<close>), a missing or empty access token gives the authentication-required error,
  and the list of requests sent is empty: nothing reaches \<^verbatim>\<open>fetch\<close>.
\<close>

theorem C7_auth_before_dispatch:
  "\<not> present (accessToken_of authData) \<Longrightarrow>
     updateExperiment fetch up authData = (Inl (Error auth_required), []) \<and>
     updateExperiment_p0 fetch up authData = (Inl (Error auth_required), []) \<and>
     createExperiment fetch cp authData = (Inl (Error auth_required), []) \<and>
     createExperiment_p0a fetch dump cp0 authData = (Inl (Error auth_required), []) \<and>
     createExperiment_p0b fetch cp0 authData = (Inl (Error auth_required), []) \<and>
     listEvents fetch lp authData = (Inl (Error auth_required), [])"
  by (simp add: updateExperiment_def updateExperiment_p0_def createExperiment_def
      createExperiment_p0a_def createExperiment_p0b_def listEvents_def)

theorem C7_auth_before_dispatch_witness:
  "\<not> present (accessToken_of (auth_of (Some []) (Some ''222''))) \<and>
   updateExperiment offline example_update (auth_of (Some []) (Some ''222''))
     = (Inl (Error auth_required), []) \<and>
   updateExperiment_p0 offline example_update (auth_of (Some []) (Some ''222''))
     = (Inl (Error auth_required), []) \<and>
   createExperiment offline example_create (auth_of (Some []) (Some ''222''))
     = (Inl (Error auth_required), []) \<and>
   createExperiment_p0a offline no_dump example_create_p0 (auth_of (Some []) (Some ''222''))
     = (Inl (Error auth_required), []) \<and>
   createExperiment_p0b offline example_create_p0 (auth_of (Some []) (Some ''222''))
     = (Inl (Error auth_required), []) \<and>
   listEvents offline example_list (auth_of (Some []) (Some ''222''))
     = (Inl (Error auth_required), [])"
proof -
  have h: "\<not> present (accessToken_of (auth_of (Some []) (Some ''222'')))"
    by (simp add: accessToken_of_def auth_of_def)
  show ?thesis
    using h C7_auth_before_dispatch [OF h, of offline example_update example_create no_dump
        example_create_p0 example_list]
    by simp
qed

subsection \<open>Helper facts about the handlers\<close>

lemma snd_dispatch [simp]: "snd (dispatch fetch rq p q k) = [rq]"
  by (simp add: dispatch_def)

lemma is_digit_not_ws: "is_digit c \<Longrightarrow> \<not> is_ws c"
  by (auto simp: is_digit_def is_ws_def)

lemma is_digit_not_sign: "is_digit c \<Longrightarrow> c \<noteq> CHR ''-'' \<and> c \<noteq> CHR ''+''"
  by (auto simp: is_digit_def)

lemma takeWhile_digits:
  assumes "\<forall>c\<in>set ds. is_digit c" "\<forall>c. head_is rest c \<longrightarrow> \<not> is_digit c"
  shows "takeWhile is_digit (ds @ rest) = ds"
proof -
  have "takeWhile is_digit rest = []"
    using assms(2) by (cases rest) (auto simp: head_is_def)
  with assms(1) show ?thesis
    by (simp add: takeWhile_append2)
qed

lemma parseInt_prefix:
  assumes "ds \<noteq> []" "\<forall>c\<in>set ds. is_digit c" "\<forall>c. head_is rest c \<longrightarrow> \<not> is_digit c"
  shows "parseInt (ds @ rest) = Some (double_int (int (nat_of_digits ds)))"
proof -
  obtain d ds' where ds: "ds = d # ds'" using assms(1) by (cases ds) auto
  have d: "is_digit d" using assms(2) ds by simp
  have tw: "takeWhile is_digit (d # ds' @ rest) = ds"
    using takeWhile_digits [OF assms(2,3)] ds by simp
  show ?thesis
    using d is_digit_not_ws [OF d] is_digit_not_sign [OF d] tw assms(1)
    by (simp add: parseInt_def ds Let_def del: takeWhile.simps)
qed

lemma parseInt_empty: "parseInt [] = None"
  by (simp add: parseInt_def)

lemma parseInt_nonempty: "parseInt s = Some n \<Longrightarrow> s \<noteq> []"
  by (auto simp: parseInt_empty)

lemma update_sends:
  assumes "present (accessToken_of a)" "parseInt (experiment_id ps) = Some n" "\<not> present (metrics ps)"
  shows "map req_url (snd (updateExperiment f ps a)) = [update_url f n]"
    and "map req_url (snd (updateExperiment_p0 f ps a)) = [update_url f n]"
  using assms by (simp_all add: updateExperiment_def updateExperiment_p0_def update_dispatch_def Let_def)

lemma update_rejects:
  assumes "present (accessToken_of a)" "parseInt (experiment_id ps) = None"
  shows "updateExperiment f ps a = (Inl (Error (invalid_experiment_id (experiment_id ps))), [])"
    and "updateExperiment_p0 f ps a = (Inl (Error (invalid_experiment_id (experiment_id ps))), [])"
  using assms by (simp_all add: updateExperiment_def updateExperiment_p0_def)

lemma list_sends:
  assumes "present (accessToken_of a)" "projectIdStr_of a (le_project_id lp) = Some s"
    "parseInt s = Some n"
  shows "map req_url (snd (listEvents f lp a)) =
           [events_url f n (case include_classic lp of None \<Rightarrow> False | Some b \<Rightarrow> b)]"
  using assms parseInt_nonempty [OF assms(3)] by (simp add: listEvents_def Let_def)

lemma list_rejects:
  assumes "present (accessToken_of a)" "projectIdStr_of a (le_project_id lp) = Some s" "s \<noteq> []"
    "parseInt s = None"
  shows "listEvents f lp a = (Inl (Error (invalid_project_id s)), [])"
  using assms by (simp add: listEvents_def Let_def)

lemma get_prop_object_of_head:
  "get_prop (object_of ((k, Some v) # ps)) k = Some v"
  by (simp add: get_prop_def object_of_def)

lemma createp0a_sends:
  assumes "present (accessToken_of a)" "projectIdStr_of a (p0_project_id cp) = Some s"
    "parseInt s = Some n"
  shows "case parse_variations default_variations_p0 (p0_variations cp) of
           Inl e \<Rightarrow> createExperiment_p0a f dump cp a = (Inl e, [])
         | Inr v \<Rightarrow>
             (\<exists>b. map req_body (snd (createExperiment_p0a f dump cp a)) = [Some b]
                  \<and> get_prop b ''project_id'' = Some (JNum (of_int n)))"
  using assms parseInt_nonempty [OF assms(3)]
  by (simp add: createExperiment_p0a_def Let_def create_dispatch_def request_body_p0_def
      get_prop_object_of_head split: sum.splits)

lemma createp0b_sends:
  assumes "present (accessToken_of a)" "projectIdStr_short a (p0_project_id cp) = Some s"
    "parseInt s = Some n"
  shows "case parse_variations default_variations_p0 (p0_variations cp) of
           Inl e \<Rightarrow> createExperiment_p0b f cp a = (Inl e, [])
         | Inr v \<Rightarrow>
             (\<exists>b. map req_body (snd (createExperiment_p0b f cp a)) = [Some b]
                  \<and> get_prop b ''project_id'' = Some (JNum (of_int n)))"
  using assms parseInt_nonempty [OF assms(3)]
  by (simp add: createExperiment_p0b_def Let_def create_dispatch_def request_body_p0_def
      get_prop_object_of_head split: sum.splits)

lemma create_sends:
  assumes "present (accessToken_of a)" "projectIdStr_short a (ce_project_id cc) = Some s" "s \<noteq> []"
  shows "case parse_variations default_variations (ce_variations cc) of
           Inl e \<Rightarrow> createExperiment f cc a = (Inl e, [])
         | Inr v \<Rightarrow>
             (\<exists>b. map req_body (snd (createExperiment f cc a)) = [Some b]
                  \<and> get_prop b ''project_id'' = Some (JStr s))"
  using assms
  by (simp add: createExperiment_def Let_def create_dispatch_def get_prop_def split: sum.splits)

lemma auth_token_only_simps [simp]:
  "present (accessToken_of auth_token_only)"
  "projectIdStr_of auth_token_only p = p"
  "projectIdStr_short auth_token_only p = p"
  by (simp_all add: auth_token_only_def accessToken_of_def projectIdStr_of_def projectIdStr_short_def
      or_else_def context_project_id_def)

subsection \<open>The order in which the project identifier is resolved\<close>

text \<open>
  C1 (as the code has it). The candidates are tried in this order: \<^verbatim>\<open>context.project_id\<close> of the
  authentication context, then the alternately spelled keys \<^verbatim>\<open>authData.project_id\<close> and
  \<^verbatim>\<open>authData.projectId\<close>, and the explicit \<^verbatim>\<open>project_id\<close> parameter last; the first non-empty
  candidate wins, so a context value takes precedence over an explicit parameter. The
  handlers with the shorter chain try the context value and then the parameter. The value
  resolved is the one that is used: \<^verbatim>\<open>list_events\<close> puts the number read from it into its
  query, the two \<^verbatim>\<open>create_experiment\<close> handlers of \<^verbatim>\<open>part_000\<close> put that number into the
  request body, and \<^verbatim>\<open>create_experiment\<close> of \<^verbatim>\<open>src/tools/create-experiment.ts\<close> puts the string
  itself there, in every request they send; with a token they send one request, unless the
  \<^verbatim>\<open>variations\<close> parameter is not JSON.
\<close>

theorem C1_context_first:
  "projectIdStr_of a p =
     (if present (context_project_id a) then context_project_id a
      else if present (Option.bind a auth_project_id) then Option.bind a auth_project_id
      else if present (Option.bind a auth_projectId) then Option.bind a auth_projectId
      else p)
   \<and> projectIdStr_short a p = (if present (context_project_id a) then context_project_id a else p)
   \<and> (present (accessToken_of a) \<longrightarrow>
        (projectIdStr_of a (le_project_id lp) = Some s \<and> parseInt s = Some n \<longrightarrow>
           map req_url (snd (listEvents f lp a)) =
             [events_url f n (case include_classic lp of None \<Rightarrow> False | Some b \<Rightarrow> b)])
      \<and> (projectIdStr_of a (p0_project_id cp) = Some s \<and> parseInt s = Some n \<longrightarrow>
           (case parse_variations default_variations_p0 (p0_variations cp) of
              Inl e \<Rightarrow> createExperiment_p0a f dump cp a = (Inl e, [])
            | Inr v \<Rightarrow>
                (\<exists>b. map req_body (snd (createExperiment_p0a f dump cp a)) = [Some b]
                     \<and> get_prop b ''project_id'' = Some (JNum (of_int n)))))
      \<and> (projectIdStr_short a (p0_project_id cp) = Some s \<and> parseInt s = Some n \<longrightarrow>
           (case parse_variations default_variations_p0 (p0_variations cp) of
              Inl e \<Rightarrow> createExperiment_p0b f cp a = (Inl e, [])
            | Inr v \<Rightarrow>
                (\<exists>b. map req_body (snd (createExperiment_p0b f cp a)) = [Some b]
                     \<and> get_prop b ''project_id'' = Some (JNum (of_int n)))))
      \<and> (projectIdStr_short a (ce_project_id cc) = Some s \<and> s \<noteq> [] \<longrightarrow>
           (case parse_variations default_variations (ce_variations cc) of
              Inl e \<Rightarrow> createExperiment f cc a = (Inl e, [])
            | Inr v \<Rightarrow>
                (\<exists>b. map req_body (snd (createExperiment f cc a)) = [Some b]
                     \<and> get_prop b ''project_id'' = Some (JStr s)))))"
proof -
  have 1: "projectIdStr_of a p =
     (if present (context_project_id a) then context_project_id a
      else if present (Option.bind a auth_project_id) then Option.bind a auth_project_id
      else if present (Option.bind a auth_projectId) then Option.bind a auth_projectId
      else p)"
    by (simp add: projectIdStr_of_def or_else_def)
  have 2: "projectIdStr_short a p = (if present (context_project_id a) then context_project_id a else p)"
    by (simp add: projectIdStr_short_def or_else_def)
  have 3: "present (accessToken_of a) \<longrightarrow>
        (projectIdStr_of a (le_project_id lp) = Some s \<and> parseInt s = Some n \<longrightarrow>
           map req_url (snd (listEvents f lp a)) =
             [events_url f n (case include_classic lp of None \<Rightarrow> False | Some b \<Rightarrow> b)])
      \<and> (projectIdStr_of a (p0_project_id cp) = Some s \<and> parseInt s = Some n \<longrightarrow>
           (case parse_variations default_variations_p0 (p0_variations cp) of
              Inl e \<Rightarrow> createExperiment_p0a f dump cp a = (Inl e, [])
            | Inr v \<Rightarrow>
                (\<exists>b. map req_body (snd (createExperiment_p0a f dump cp a)) = [Some b]
                     \<and> get_prop b ''project_id'' = Some (JNum (of_int n)))))
      \<and> (projectIdStr_short a (p0_project_id cp) = Some s \<and> parseInt s = Some n \<longrightarrow>
           (case parse_variations default_variations_p0 (p0_variations cp) of
              Inl e \<Rightarrow> createExperiment_p0b f cp a = (Inl e, [])
            | Inr v \<Rightarrow>
                (\<exists>b. map req_body (snd (createExperiment_p0b f cp a)) = [Some b]
                     \<and> get_prop b ''project_id'' = Some (JNum (of_int n)))))
      \<and> (projectIdStr_short a (ce_project_id cc) = Some s \<and> s \<noteq> [] \<longrightarrow>
           (case parse_variations default_variations (ce_variations cc) of
              Inl e \<Rightarrow> createExperiment f cc a = (Inl e, [])
            | Inr v \<Rightarrow>
                (\<exists>b. map req_body (snd (createExperiment f cc a)) = [Some b]
                     \<and> get_prop b ''project_id'' = Some (JStr s))))"
  proof
    assume t: "present (accessToken_of a)"
    show "(projectIdStr_of a (le_project_id lp) = Some s \<and> parseInt s = Some n \<longrightarrow>
           map req_url (snd (listEvents f lp a)) =
             [events_url f n (case include_classic lp of None \<Rightarrow> False | Some b \<Rightarrow> b)])
      \<and> (projectIdStr_of a (p0_project_id cp) = Some s \<and> parseInt s = Some n \<longrightarrow>
           (case parse_variations default_variations_p0 (p0_variations cp) of
              Inl e \<Rightarrow> createExperiment_p0a f dump cp a = (Inl e, [])
            | Inr v \<Rightarrow>
                (\<exists>b. map req_body (snd (createExperiment_p0a f dump cp a)) = [Some b]
                     \<and> get_prop b ''project_id'' = Some (JNum (of_int n)))))
      \<and> (projectIdStr_short a (p0_project_id cp) = Some s \<and> parseInt s = Some n \<longrightarrow>
           (case parse_variations default_variations_p0 (p0_variations cp) of
              Inl e \<Rightarrow> createExperiment_p0b f cp a = (Inl e, [])
            | Inr v \<Rightarrow>
                (\<exists>b. map req_body (snd (createExperiment_p0b f cp a)) = [Some b]
                     \<and> get_prop b ''project_id'' = Some (JNum (of_int n)))))
      \<and> (projectIdStr_short a (ce_project_id cc) = Some s \<and> s \<noteq> [] \<longrightarrow>
           (case parse_variations default_variations (ce_variations cc) of
              Inl e \<Rightarrow> createExperiment f cc a = (Inl e, [])
            | Inr v \<Rightarrow>
                (\<exists>b. map req_body (snd (createExperiment f cc a)) = [Some b]
                     \<and> get_prop b ''project_id'' = Some (JStr s))))"
      using list_sends [OF t, of lp s n f] createp0a_sends [OF t, of cp s n f dump]
        createp0b_sends [OF t, of cp s n f] create_sends [OF t, of cc s f]
      by blast
  qed
  show ?thesis
    by (rule conjI [OF 1 conjI [OF 2 3]])
qed

theorem C1_context_first_witness:
  "present (accessToken_of (auth_of (Some ''tok'') (Some ''222'')))
   \<and> projectIdStr_of (auth_of (Some ''tok'') (Some ''222'')) (Some ''111'') = Some ''222''
   \<and> projectIdStr_short (auth_of (Some ''tok'') (Some ''222'')) (Some ''111'') = Some ''222''
   \<and> le_project_id example_list = Some ''111'' \<and> p0_project_id example_create_p0 = Some ''111''
   \<and> ce_project_id example_create = Some ''111''
   \<and> parseInt ''222'' = Some 222
   \<and> map req_url (snd (listEvents offline example_list (auth_of (Some ''tok'') (Some ''222'')))) =
        [events_url offline 222 False]
   \<and> (\<exists>b. map req_body (snd (createExperiment_p0a offline no_dump example_create_p0
                               (auth_of (Some ''tok'') (Some ''222'')))) = [Some b]
          \<and> get_prop b ''project_id'' = Some (JNum 222))
   \<and> (\<exists>b. map req_body (snd (createExperiment_p0b offline example_create_p0
                               (auth_of (Some ''tok'') (Some ''222'')))) = [Some b]
          \<and> get_prop b ''project_id'' = Some (JNum 222))
   \<and> (\<exists>b. map req_body (snd (createExperiment offline example_create
                               (auth_of (Some ''tok'') (Some ''222'')))) = [Some b]
          \<and> get_prop b ''project_id'' = Some (JStr ''222''))"
proof -
  let ?a = "auth_of (Some ''tok'') (Some ''222'')"
  have t: "present (accessToken_of ?a)" by (simp add: accessToken_of_def auth_of_def)
  have r: "projectIdStr_of ?a (Some ''111'') = Some ''222''"
    "projectIdStr_short ?a (Some ''111'') = Some ''222''"
    by (simp_all add: projectIdStr_of_def projectIdStr_short_def or_else_def context_project_id_def
        auth_of_def)
  have p: "parseInt ''222'' = Some 222" by (simp add: eval_parseInt)
  have l: "le_project_id example_list = Some ''111''" "include_classic example_list = None"
    by (simp_all add: example_list_def)
  have c: "p0_project_id example_create_p0 = Some ''111''"
    "parse_variations default_variations_p0 (p0_variations example_create_p0) = Inr default_variations_p0"
    by (simp_all add: example_create_p0_def parse_variations_def)
  have d: "ce_project_id example_create = Some ''111''"
    "parse_variations default_variations (ce_variations example_create) = Inr default_variations"
    by (simp_all add: example_create_def parse_variations_def)
  show ?thesis
    using C1_context_first [of ?a "Some ''111''" example_list "''222''" 222 offline example_create_p0
        no_dump example_create]
      t r p l c d
    by simp
qed

text \<open>
  The claim as stated fails: with the explicit parameter \<open>111\<close> and the context value \<open>222\<close>
  both present, the order of the specification would take \<open>111\<close>, and the code takes \<open>222\<close>
  and queries the events of project 222.
\<close>

theorem C1_counterexample:
  "projectIdStr_of (auth_of (Some ''tok'') (Some ''222'')) (Some ''111'') = Some ''222''
   \<and> spec_projectIdStr (auth_of (Some ''tok'') (Some ''222'')) (Some ''111'') = Some ''111''
   \<and> map req_url (snd (listEvents offline example_list (auth_of (Some ''tok'') (Some ''222'')))) =
        [''https://api.optimizely.com/v2/events?project_id=222'']"
  by (simp add: projectIdStr_of_def spec_projectIdStr_def or_else_def context_project_id_def
      auth_of_def listEvents_def accessToken_of_def example_list_def eval_parseInt events_url_def
      number_text_def show_int_def digit_char_def)

subsection \<open>Numeric identifiers\<close>

text \<open>
  C8. \<^verbatim>\<open>parseInt\<close> reads \<open>12345\<close> from the string \<^verbatim>\<open>"12345"\<close>, and \<^verbatim>\<open>update_experiment\<close> and
  \<^verbatim>\<open>list_events\<close> then address experiment or project 12345; a string from which no integer
  can be read, such as \<^verbatim>\<open>"abc"\<close>, gives no \<^verbatim>\<open>NaN\<close> downstream but the error
  \<^verbatim>\<open>Invalid experiment_id: "abc". Must be a valid integer.\<close> (or \<^verbatim>\<open>Invalid project_id: ...\<close>),
  which quotes the offending value, and nothing is sent.
\<close>

theorem C8_identifier_parsing:
  "parseInt ''12345'' = Some 12345 \<and> parseInt ''abc'' = None
   \<and> (present (accessToken_of a) \<longrightarrow>
        (experiment_id ps = ''12345'' \<and> \<not> present (metrics ps) \<longrightarrow>
           map req_url (snd (updateExperiment f ps a)) = [''https://api.optimizely.com/v2/experiments/12345'']
           \<and> map req_url (snd (updateExperiment_p0 f ps a)) = [''https://api.optimizely.com/v2/experiments/12345''])
      \<and> (parseInt (experiment_id ps') = None \<longrightarrow>
           updateExperiment f ps' a =
             (Inl (Error (''Invalid experiment_id: '' @ [CHR 0x22] @ experiment_id ps' @ [CHR 0x22]
                          @ ''. Must be a valid integer.'')), [])
           \<and> updateExperiment_p0 f ps' a =
             (Inl (Error (''Invalid experiment_id: '' @ [CHR 0x22] @ experiment_id ps' @ [CHR 0x22]
                          @ ''. Must be a valid integer.'')), []))
      \<and> (projectIdStr_of a (le_project_id lp) = Some ''12345'' \<longrightarrow>
           map req_url (snd (listEvents f lp a)) =
             [''https://api.optimizely.com/v2/events?project_id=12345''
              @ (if include_classic lp = Some True then ''&include_classic=true'' else [])])
      \<and> (projectIdStr_of a (le_project_id lp') = Some s \<and> s \<noteq> [] \<and> parseInt s = None \<longrightarrow>
           listEvents f lp' a =
             (Inl (Error (''Invalid project_id: '' @ [CHR 0x22] @ s @ [CHR 0x22]
                          @ ''. Must be a valid integer.'')), [])))"
proof -
  have p1: "parseInt ''12345'' = Some 12345" by (simp add: eval_parseInt)
  have p2: "parseInt ''abc'' = None" by (simp add: eval_parseInt)
  have u: "update_url f 12345 = ''https://api.optimizely.com/v2/experiments/12345''"
    by (simp add: update_url_def number_text_def show_int_def digit_char_def)
  have e: "events_url f 12345 (case include_classic lp of None \<Rightarrow> False | Some b \<Rightarrow> b) =
      ''https://api.optimizely.com/v2/events?project_id=12345''
              @ (if include_classic lp = Some True then ''&include_classic=true'' else [])"
    by (simp add: events_url_def number_text_def show_int_def digit_char_def split: option.splits)
  show ?thesis
    using p1 p2 u e update_sends [of a ps 12345 f] update_rejects [of a ps' f]
      list_sends [of a lp "''12345''" 12345 f] list_rejects [of a lp' s f]
    by (simp add: invalid_experiment_id_def invalid_project_id_def)
qed

theorem C8_identifier_parsing_witness:
  "present (accessToken_of auth_token_only)
   \<and> experiment_id (update_with_id ''12345'') = ''12345'' \<and> \<not> present (metrics (update_with_id ''12345''))
   \<and> map req_url (snd (updateExperiment offline (update_with_id ''12345'') auth_token_only))
        = [''https://api.optimizely.com/v2/experiments/12345'']
   \<and> parseInt (experiment_id (update_with_id ''abc'')) = None
   \<and> updateExperiment offline (update_with_id ''abc'') auth_token_only =
        (Inl (Error (''Invalid experiment_id: '' @ [CHR 0x22] @ ''abc'' @ [CHR 0x22]
                     @ ''. Must be a valid integer.'')), [])
   \<and> projectIdStr_of auth_token_only (le_project_id (list_with_id ''12345'')) = Some ''12345''
   \<and> map req_url (snd (listEvents offline (list_with_id ''12345'') auth_token_only))
        = [''https://api.optimizely.com/v2/events?project_id=12345'']
   \<and> projectIdStr_of auth_token_only (le_project_id (list_with_id ''abc'')) = Some ''abc''
   \<and> listEvents offline (list_with_id ''abc'') auth_token_only =
        (Inl (Error (''Invalid project_id: '' @ [CHR 0x22] @ ''abc'' @ [CHR 0x22]
                     @ ''. Must be a valid integer.'')), [])"
  using C8_identifier_parsing [of auth_token_only "update_with_id ''12345''" offline
      "update_with_id ''abc''" "list_with_id ''12345''" "list_with_id ''abc''" "''abc''"]
  by (simp add: update_with_id_def list_with_id_def)

text \<open>
  C9. A string that starts with digits and goes on with anything that is not a digit is
  accepted: \<^verbatim>\<open>parseInt\<close> reads the digits and ignores the rest, gives the number that stands
  for them (never \<^verbatim>\<open>NaN\<close>), and the request for that number is sent. Up to \<open>2\<^sup>5\<^sup>3\<close> the number
  is the integer that the digits denote and the request names it in decimal, so
  \<^verbatim>\<open>"123abc"\<close> is experiment (or project) 123; beyond, the number is the nearest double and
  its text is the engine's.
\<close>

theorem C9_integer_prefix_accepted:
  assumes "ds \<noteq> []" "list_all is_digit ds" "\<not> list_ex is_digit (take 1 rest)"
  shows "parseInt (ds @ rest) = Some (double_int (int (nat_of_digits ds)))
   \<and> (nat_of_digits ds \<le> 2 ^ 53 \<longrightarrow>
        parseInt (ds @ rest) = Some (int (nat_of_digits ds))
        \<and> update_url f (int (nat_of_digits ds)) =
            ''https://api.optimizely.com/v2/experiments/'' @ show_nat (nat_of_digits ds)
        \<and> events_url f (int (nat_of_digits ds)) c =
            ''https://api.optimizely.com/v2/events?project_id='' @ show_nat (nat_of_digits ds)
              @ (if c then ''&include_classic=true'' else []))
   \<and> (present (accessToken_of a) \<longrightarrow>
        (experiment_id ps = ds @ rest \<and> \<not> present (metrics ps) \<longrightarrow>
           map req_url (snd (updateExperiment f ps a)) =
             [update_url f (double_int (int (nat_of_digits ds)))]
           \<and> map req_url (snd (updateExperiment_p0 f ps a)) =
             [update_url f (double_int (int (nat_of_digits ds)))])
      \<and> (projectIdStr_of a (le_project_id lp) = Some (ds @ rest) \<longrightarrow>
           map req_url (snd (listEvents f lp a)) =
             [events_url f (double_int (int (nat_of_digits ds)))
                (case include_classic lp of None \<Rightarrow> False | Some b \<Rightarrow> b)]))"
proof -
  let ?n = "double_int (int (nat_of_digits ds))"
  have d: "\<forall>c\<in>set ds. is_digit c"
    using assms(2) by (simp add: list_all_iff)
  have r: "\<forall>c. head_is rest c \<longrightarrow> \<not> is_digit c"
    using assms(3) by (cases rest) (auto simp: head_is_def)
  have p: "parseInt (ds @ rest) = Some ?n"
    by (rule parseInt_prefix [OF assms(1) d r])
  have 1: "nat_of_digits ds \<le> 2 ^ 53 \<longrightarrow>
        parseInt (ds @ rest) = Some (int (nat_of_digits ds))
        \<and> update_url f (int (nat_of_digits ds)) =
            ''https://api.optimizely.com/v2/experiments/'' @ show_nat (nat_of_digits ds)
        \<and> events_url f (int (nat_of_digits ds)) c =
            ''https://api.optimizely.com/v2/events?project_id='' @ show_nat (nat_of_digits ds)
              @ (if c then ''&include_classic=true'' else [])"
  proof
    assume "nat_of_digits ds \<le> 2 ^ 53"
    then have "int (nat_of_digits ds) \<le> int (2 ^ 53)" by (simp only: of_nat_le_iff)
    then have b: "\<bar>int (nat_of_digits ds)\<bar> \<le> 2 ^ 53" by simp
    show "parseInt (ds @ rest) = Some (int (nat_of_digits ds))
        \<and> update_url f (int (nat_of_digits ds)) =
            ''https://api.optimizely.com/v2/experiments/'' @ show_nat (nat_of_digits ds)
        \<and> events_url f (int (nat_of_digits ds)) c =
            ''https://api.optimizely.com/v2/events?project_id='' @ show_nat (nat_of_digits ds)
              @ (if c then ''&include_classic=true'' else [])"
      using p double_int_exact [OF b] number_text_exact [OF b, of f]
      by (simp add: update_url_def events_url_def show_int_def)
  qed
  have 2: "present (accessToken_of a) \<longrightarrow>
        (experiment_id ps = ds @ rest \<and> \<not> present (metrics ps) \<longrightarrow>
           map req_url (snd (updateExperiment f ps a)) = [update_url f ?n]
           \<and> map req_url (snd (updateExperiment_p0 f ps a)) = [update_url f ?n])
      \<and> (projectIdStr_of a (le_project_id lp) = Some (ds @ rest) \<longrightarrow>
           map req_url (snd (listEvents f lp a)) =
             [events_url f ?n (case include_classic lp of None \<Rightarrow> False | Some b \<Rightarrow> b)])"
    using p update_sends [of a ps ?n f] list_sends [of a lp "ds @ rest" ?n f]
    by simp
  show ?thesis
    by (rule conjI [OF p conjI [OF 1 2]])
qed

theorem C9_integer_prefix_accepted_witness:
  "''123'' \<noteq> [] \<and> list_all is_digit ''123'' \<and> \<not> list_ex is_digit (take 1 ''abc'')
   \<and> nat_of_digits ''123'' \<le> 2 ^ 53
   \<and> parseInt ''123abc'' = Some 123
   \<and> present (accessToken_of auth_token_only)
   \<and> experiment_id (update_with_id ''123abc'') = ''123abc''
   \<and> \<not> present (metrics (update_with_id ''123abc''))
   \<and> map req_url (snd (updateExperiment offline (update_with_id ''123abc'') auth_token_only))
        = [''https://api.optimizely.com/v2/experiments/123'']
   \<and> map req_url (snd (updateExperiment_p0 offline (update_with_id ''123abc'') auth_token_only))
        = [''https://api.optimizely.com/v2/experiments/123'']
   \<and> projectIdStr_of auth_token_only (le_project_id (list_with_id ''123abc'')) = Some ''123abc''
   \<and> map req_url (snd (listEvents offline (list_with_id ''123abc'') auth_token_only))
        = [''https://api.optimizely.com/v2/events?project_id=123'']"
proof -
  have h1: "''123'' \<noteq> []" by simp
  have h2: "list_all is_digit ''123''" by (simp add: is_digit_def)
  have h3: "\<not> list_ex is_digit (take 1 ''abc'')" by (simp add: is_digit_def)
  have n: "nat_of_digits ''123'' = 123" by (simp add: nat_of_digits_def digit_val_def)
  show ?thesis
    using h1 h2 h3 C9_integer_prefix_accepted [OF h1 h2 h3, of offline False auth_token_only
        "update_with_id ''123abc''" "list_with_id ''123abc''"]
    by (simp add: n update_with_id_def list_with_id_def digit_char_def)
qed

subsection \<open>Metric defaults of \<^verbatim>\<open>update_experiment\<close>\<close>

lemma map_of_obj_set: "map_of (obj_set k v ps) k' = (if k' = k then Some v else map_of ps k')"
  by (induction ps) auto

lemma map_of_obj_assign:
  "map_of (obj_assign a b) k = (case map_of (rev b) k of None \<Rightarrow> map_of a k | Some v \<Rightarrow> Some v)"
  unfolding obj_assign_def
proof (induction b arbitrary: a)
  case Nil
  then show ?case by simp
next
  case (Cons p b)
  obtain k1 v1 where p: "p = (k1, v1)" by (cases p)
  have "map_of (foldl (\<lambda>acc (k, v). obj_set k v acc) (obj_set k1 v1 a) b) k =
          (case map_of (rev b) k of None \<Rightarrow> map_of (obj_set k1 v1 a) k | Some v \<Rightarrow> Some v)"
    by (rule Cons.IH)
  then show ?case
    by (simp add: p map_of_obj_set map_add_def split: option.splits)
qed

lemma parse_event_metric:
  \<open>JSON_parse ''[{"event_id":1}]'' = Inr (JArr [JObj [(''event_id'', JNum 1)]])\<close>
  by (simp add: eval_JSON)

lemma defaults_event_metric:
  "metrics_with_defaults (JArr [JObj [(''event_id'', JNum 1)]]) =
     Inr (JArr [JObj [(''event_id'', JNum 1), (''aggregator'', JStr ''unique''),
                      (''account_id'', JNum 22816830226), (''event_type'', JStr ''custom''),
                      (''scope'', JStr ''visitor''), (''winning_direction'', JStr ''increasing'')]])"
  by (simp add: metrics_with_defaults_def metric_defaults_def spread_def obj_assign_def prop_or_def
      get_prop_def account_id_def)

text \<open>
  C2 (as the code has it). In the handler that applies the metric defaults (\<^verbatim>\<open>part_000\<close>, the
  behaviour that \<^verbatim>\<open>README.md\<close> documents), a call that reaches the request, with the metrics
  parameter \<^verbatim>\<open>[{"event_id":1}]\<close>, sends one request. In its body, \<^verbatim>\<open>metrics\<close> holds that one
  metric with \<^verbatim>\<open>aggregator\<close> \<^verbatim>\<open>"unique"\<close>, \<^verbatim>\<open>scope\<close> \<^verbatim>\<open>"visitor"\<close>, \<^verbatim>\<open>event_type\<close> \<^verbatim>\<open>"custom"\<close>,
  \<^verbatim>\<open>winning_direction\<close> \<^verbatim>\<open>"increasing"\<close> and the account id 22816830226; the \<^verbatim>\<open>account_id\<close> of the
  body itself is the value of the field of the call that is named \<^verbatim>\<open>account_id\<close> when there
  is one (the last one in a property list that names it twice), and 22816830226 otherwise.
\<close>

theorem C2_update_metric_defaults:
  assumes "present (accessToken_of a)" "parseInt (experiment_id ps) = Some n"
    and \<open>metrics ps = Some ''[{"event_id":1}]''\<close>
  shows "\<exists>b. map req_body (snd (updateExperiment_p0 f ps a)) = [Some b]
     \<and> get_prop b ''metrics'' =
         Some (JArr [JObj [(''event_id'', JNum 1), (''aggregator'', JStr ''unique''),
                           (''account_id'', JNum 22816830226), (''event_type'', JStr ''custom''),
                           (''scope'', JStr ''visitor''), (''winning_direction'', JStr ''increasing'')]])
     \<and> get_prop b ''account_id'' =
         Some (case map_of (rev (otherFields ps)) ''account_id'' of
                 None \<Rightarrow> JNum 22816830226
               | Some v \<Rightarrow> v)"
proof -
  let ?ms = "JArr [JObj [(''event_id'', JNum 1), (''aggregator'', JStr ''unique''),
                           (''account_id'', JNum 22816830226), (''event_type'', JStr ''custom''),
                           (''scope'', JStr ''visitor''), (''winning_direction'', JStr ''increasing'')]]"
  let ?body = "obj_set ''metrics'' ?ms (obj_assign [(''account_id'', JNum account_id)] (otherFields ps))"
  have sent: "map req_body (snd (updateExperiment_p0 f ps a)) = [Some (JObj ?body)]"
    using assms
    by (simp add: updateExperiment_p0_def Let_def parse_event_metric defaults_event_metric
        update_dispatch_def)
  have m: "get_prop (JObj ?body) ''metrics'' = Some ?ms"
    by (simp add: get_prop_def map_of_obj_set)
  have acc: "get_prop (JObj ?body) ''account_id'' =
         Some (case map_of (rev (otherFields ps)) ''account_id'' of
                 None \<Rightarrow> JNum 22816830226
               | Some v \<Rightarrow> v)"
    by (simp add: get_prop_def map_of_obj_set map_of_obj_assign account_id_def split: option.splits)
  show ?thesis
    by (intro exI [of _ "JObj ?body"] conjI sent m acc)
qed

theorem C2_update_metric_defaults_witness:
  \<open>present (accessToken_of auth_token_only) \<and> parseInt (experiment_id example_update) = Some 12345
   \<and> metrics example_update = Some ''[{"event_id":1}]''
   \<and> map_of (rev (otherFields example_update)) ''account_id'' = None
   \<and> (\<exists>b. map req_body (snd (updateExperiment_p0 offline example_update auth_token_only)) = [Some b]
     \<and> get_prop b ''metrics'' =
         Some (JArr [JObj [(''event_id'', JNum 1), (''aggregator'', JStr ''unique''),
                           (''account_id'', JNum 22816830226), (''event_type'', JStr ''custom''),
                           (''scope'', JStr ''visitor''), (''winning_direction'', JStr ''increasing'')]])
     \<and> get_prop b ''account_id'' = Some (JNum 22816830226))\<close>
proof -
  have h1: "present (accessToken_of auth_token_only)" by simp
  have h2: "parseInt (experiment_id example_update) = Some 12345"
    by (simp add: example_update_def eval_parseInt)
  have h3: \<open>metrics example_update = Some ''[{"event_id":1}]''\<close> by (simp add: example_update_def)
  have h4: "map_of (rev (otherFields example_update)) ''account_id'' = None"
    by (simp add: example_update_def)
  show ?thesis
    using C2_update_metric_defaults [OF h1 h2 h3, of offline] h1 h2 h3 h4 by simp
qed

text \<open>
  The claim as stated fails: a field \<^verbatim>\<open>account_id\<close> of the call replaces the fixed account
  id of the body, since \<^verbatim>\<open>...otherFields\<close> is spread after it. With \<^verbatim>\<open>account_id: 5\<close> among the
  fields, the body has the account id 5 and only the metric has 22816830226.
\<close>

theorem C2_counterexample:
  "map req_body (snd (updateExperiment_p0 offline example_update_override auth_token_only)) =
     [Some (JObj [(''account_id'', JNum 5),
                  (''metrics'',
                   JArr [JObj [(''event_id'', JNum 1), (''aggregator'', JStr ''unique''),
                               (''account_id'', JNum 22816830226), (''event_type'', JStr ''custom''),
                               (''scope'', JStr ''visitor''),
                               (''winning_direction'', JStr ''increasing'')]])])]"
  by (simp add: updateExperiment_p0_def example_update_override_def eval_parseInt
      parse_event_metric defaults_event_metric update_dispatch_def obj_assign_def)

subsection \<open>Default variations of \<^verbatim>\<open>create_experiment\<close>\<close>

text \<open>
  C3 (as the code has it). Without a \<^verbatim>\<open>variations\<close> parameter, every request that
  \<^verbatim>\<open>create_experiment\<close> sends carries exactly two variations, the control \<^verbatim>\<open>Original\<close> and one
  treatment. In the two handlers of \<^verbatim>\<open>part_000\<close> the treatment is \<^verbatim>\<open>Variation #1\<close> and each of
  the two has weight 5000, total traffic 50 and percentage 50: an even split. In
  \<^verbatim>\<open>src/tools/create-experiment.ts\<close> and in \<^verbatim>\<open>part_001\<close> the treatment is \<^verbatim>\<open>Variation 1\<close> and
  the two variations have an empty list of actions and no traffic allocation.
\<close>

theorem C3_default_variations:
  "(\<not> present (ce_variations cp) \<longrightarrow>
      (\<forall>rq\<in>set (snd (createExperiment f cp a)).
         Option.bind (req_body rq) (\<lambda>b. get_prop b ''variations'') =
           Some (JArr [JObj [(''name'', JStr ''Original''), (''actions'', JArr [])],
                       JObj [(''name'', JStr ''Variation 1''), (''actions'', JArr [])]])))
   \<and> (\<not> present (p1_variations cp_one) \<longrightarrow>
      (\<forall>rq\<in>set (snd (createExperiment_p1 f cp_one)).
         Option.bind (req_body rq) (\<lambda>b. get_prop b ''variations'') =
           Some (JArr [JObj [(''name'', JStr ''Original''), (''actions'', JArr [])],
                       JObj [(''name'', JStr ''Variation 1''), (''actions'', JArr [])]])))
   \<and> (\<not> present (p0_variations cp_zero) \<longrightarrow>
      (\<forall>rq\<in>set (snd (createExperiment_p0a f dump cp_zero a) @ snd (createExperiment_p0b f cp_zero a)).
         Option.bind (req_body rq) (\<lambda>b. get_prop b ''variations'') =
           Some (JArr [JObj [(''name'', JStr ''Original''), (''weight'', JNum 5000),
                             (''totalTraffic'', JNum 50), (''percentage'', JNum 50),
                             (''actions'', JArr [])],
                       JObj [(''name'', JStr ''Variation #1''), (''weight'', JNum 5000),
                             (''totalTraffic'', JNum 50), (''percentage'', JNum 50),
                             (''actions'', JArr [])]])))"
proof -
  have 1: "\<not> present (ce_variations cp) \<longrightarrow>
      (\<forall>rq\<in>set (snd (createExperiment f cp a)).
         Option.bind (req_body rq) (\<lambda>b. get_prop b ''variations'') =
           Some (JArr [JObj [(''name'', JStr ''Original''), (''actions'', JArr [])],
                       JObj [(''name'', JStr ''Variation 1''), (''actions'', JArr [])]]))"
    by (simp add: createExperiment_def Let_def parse_variations_def create_dispatch_def
        get_prop_def default_variations_def)
  have 2: "\<not> present (p1_variations cp_one) \<longrightarrow>
      (\<forall>rq\<in>set (snd (createExperiment_p1 f cp_one)).
         Option.bind (req_body rq) (\<lambda>b. get_prop b ''variations'') =
           Some (JArr [JObj [(''name'', JStr ''Original''), (''actions'', JArr [])],
                       JObj [(''name'', JStr ''Variation 1''), (''actions'', JArr [])]]))"
    by (simp add: createExperiment_p1_def Let_def parse_variations_def create_dispatch_def
        get_prop_def default_variations_def)
  have 3: "\<not> present (p0_variations cp_zero) \<longrightarrow>
      (\<forall>rq\<in>set (snd (createExperiment_p0a f dump cp_zero a) @ snd (createExperiment_p0b f cp_zero a)).
         Option.bind (req_body rq) (\<lambda>b. get_prop b ''variations'') =
           Some (JArr [JObj [(''name'', JStr ''Original''), (''weight'', JNum 5000),
                             (''totalTraffic'', JNum 50), (''percentage'', JNum 50),
                             (''actions'', JArr [])],
                       JObj [(''name'', JStr ''Variation #1''), (''weight'', JNum 5000),
                             (''totalTraffic'', JNum 50), (''percentage'', JNum 50),
                             (''actions'', JArr [])]]))"
    by (auto simp: createExperiment_p0a_def createExperiment_p0b_def Let_def parse_variations_def
        create_dispatch_def get_prop_def default_variations_p0_def object_of_def request_body_p0_def
        split: option.splits)
  show ?thesis by (rule conjI [OF 1 conjI [OF 2 3]])
qed

theorem C3_default_variations_witness:
  "\<not> present (ce_variations example_create) \<and> \<not> present (p1_variations example_create_p1)
   \<and> \<not> present (p0_variations example_create_p0)
   \<and> map (\<lambda>rq. Option.bind (req_body rq) (\<lambda>b. get_prop b ''variations''))
         (snd (createExperiment offline example_create (auth_of (Some ''tok'') (Some ''222'')))) =
         [Some (JArr [JObj [(''name'', JStr ''Original''), (''actions'', JArr [])],
                      JObj [(''name'', JStr ''Variation 1''), (''actions'', JArr [])]])]
   \<and> map (\<lambda>rq. Option.bind (req_body rq) (\<lambda>b. get_prop b ''variations''))
         (snd (createExperiment_p1 offline example_create_p1)) =
         [Some (JArr [JObj [(''name'', JStr ''Original''), (''actions'', JArr [])],
                      JObj [(''name'', JStr ''Variation 1''), (''actions'', JArr [])]])]
   \<and> map (\<lambda>rq. Option.bind (req_body rq) (\<lambda>b. get_prop b ''variations''))
         (snd (createExperiment_p0a offline no_dump example_create_p0 (auth_of (Some ''tok'') (Some ''222'')))
          @ snd (createExperiment_p0b offline example_create_p0 (auth_of (Some ''tok'') (Some ''222'')))) =
         replicate 2
           (Some (JArr [JObj [(''name'', JStr ''Original''), (''weight'', JNum 5000),
                              (''totalTraffic'', JNum 50), (''percentage'', JNum 50),
                              (''actions'', JArr [])],
                        JObj [(''name'', JStr ''Variation #1''), (''weight'', JNum 5000),
                              (''totalTraffic'', JNum 50), (''percentage'', JNum 50),
                              (''actions'', JArr [])]]))"
proof -
  let ?a = "auth_of (Some ''tok'') (Some ''222'')"
  have h: "\<not> present (ce_variations example_create)" "\<not> present (p1_variations example_create_p1)"
    "\<not> present (p0_variations example_create_p0)"
    by (simp_all add: example_create_def example_create_p1_def example_create_p0_def)
  have t: "present (accessToken_of ?a)" by (simp add: accessToken_of_def auth_of_def)
  have r: "projectIdStr_of ?a (Some ''111'') = Some ''222''" "projectIdStr_short ?a (Some ''111'') = Some ''222''"
    by (simp_all add: projectIdStr_of_def projectIdStr_short_def or_else_def context_project_id_def auth_of_def)
  have p: "parseInt ''222'' = Some 222" by (simp add: eval_parseInt)
  have l: "length (snd (createExperiment offline example_create ?a)) = 1"
    "length (snd (createExperiment_p1 offline example_create_p1)) = 1"
    "length (snd (createExperiment_p0a offline no_dump example_create_p0 ?a)
             @ snd (createExperiment_p0b offline example_create_p0 ?a)) = 2"
    using t r p
    by (simp_all add: createExperiment_def createExperiment_p1_def createExperiment_p0a_def
        createExperiment_p0b_def Let_def parse_variations_def create_dispatch_def example_create_def
        example_create_p1_def example_create_p0_def)
  have same: "length xs = n \<Longrightarrow> \<forall>x\<in>set xs. g x = v \<Longrightarrow> map g xs = replicate n v"
    for xs :: "request list" and n and g :: "request \<Rightarrow> json option" and v
    by (induction xs arbitrary: n) auto
  note c = C3_default_variations [where cp = example_create and cp_one = example_create_p1
        and cp_zero = example_create_p0 and f = offline and a = ?a and dump = no_dump]
  show ?thesis
    using h same [OF l(1)] same [OF l(2)] same [OF l(3)] c by simp
qed

text \<open>
  The claim as stated fails on \<^verbatim>\<open>src/tools/create-experiment.ts\<close>: the two default variations
  it sends say nothing about traffic.
\<close>

theorem C3_counterexample:
  "map req_body (snd (createExperiment offline example_create (auth_of (Some ''tok'') (Some ''222'')))) =
     [Some (JObj [(''project_id'', JStr ''222''), (''status'', JStr ''not_started''),
                  (''description'', JStr ''Hero test''), (''type'', JStr ''ab''),
                  (''edit_url'', JStr ''hero''),
                  (''variations'',
                   JArr [JObj [(''name'', JStr ''Original''), (''actions'', JArr [])],
                         JObj [(''name'', JStr ''Variation 1''), (''actions'', JArr [])]])])]
   \<and> get_prop (JObj [(''name'', JStr ''Original''), (''actions'', JArr [])]) ''weight'' = None
   \<and> get_prop (JObj [(''name'', JStr ''Original''), (''actions'', JArr [])]) ''percentage'' = None
   \<and> get_prop (JObj [(''name'', JStr ''Original''), (''actions'', JArr [])]) ''totalTraffic'' = None"
  by (simp add: createExperiment_def Let_def parse_variations_def create_dispatch_def
      example_create_def auth_of_def accessToken_of_def projectIdStr_short_def or_else_def
      context_project_id_def default_variations_def default_to_def get_prop_def)

subsection \<open>The results transformation\<close>

lemma set_liftValues:
  "set (liftValues rs) =
     {x. \<exists>k res l. (k, res) \<in> set rs \<and> vr_lift res = Some l \<and> round_double (lift_value l) = x}"
  by (force simp: liftValues_def image_iff)

lemma liftValues_empty: "liftValues rs = [] \<longleftrightarrow> (\<forall>(k, res)\<in>set rs. vr_lift res = None)"
  by (auto simp: liftValues_def filter_empty_conv)

lemma bestLift_Max: "vs \<noteq> [] \<Longrightarrow> bestLift vs = Max (set vs)"
proof (cases vs)
  case Nil
  assume "vs \<noteq> []" with Nil show ?thesis by simp
next
  case (Cons v vs')
  have "(\<lambda>x s. max s x) = (max :: rat \<Rightarrow> rat \<Rightarrow> rat)"
    by (intro ext) (simp add: max.commute)
  then have "foldl max v vs' = fold max vs' v"
    by (simp add: foldl_conv_fold)
  also have "\<dots> = Max (set (v # vs'))"
    by (rule Max.set_eq_fold [symmetric])
  finally show ?thesis
    by (simp add: Cons bestLift_def)
qed

lemma toFixed1_nearest:
  assumes "0 \<le> x" "x < 10 ^ 21"
  shows "\<exists>n. toFixed1 pf x = show_nat (n div 10) @ ''.'' @ show_nat (n mod 10)
             \<and> of_nat n / 10 - 1 / 20 \<le> x \<and> x < of_nat n / 10 + 1 / 20"
proof -
  let ?y = "10 * x + 1 / 2"
  let ?n = "nat \<lfloor>?y\<rfloor>"
  have y0: "0 \<le> ?y" using assms(1) by simp
  then have f0: "0 \<le> \<lfloor>?y\<rfloor>" by simp
  then have n: "(of_nat ?n :: rat) = of_int \<lfloor>?y\<rfloor>" by simp
  have lo: "of_int \<lfloor>?y\<rfloor> \<le> ?y" by (rule of_int_floor_le)
  have hi: "?y < of_int \<lfloor>?y\<rfloor> + 1" using floor_correct [of ?y] by simp
  have a: "\<bar>x\<bar> = x" using assms(1) by simp
  have 1: "toFixed1 pf x = show_nat (?n div 10) @ ''.'' @ show_nat (?n mod 10)"
    using assms by (simp only: toFixed1_def Let_def a) simp
  have 2: "of_nat ?n / 10 - 1 / 20 \<le> x" using lo n by (simp add: field_simps)
  have 3: "x < of_nat ?n / 10 + 1 / 20" using hi n by (simp add: field_simps)
  from 1 2 3 show ?thesis by blast
qed

text \<open>
  C4 (as the code has it). Every metric of the payload is transformed by itself. When no
  variation of a metric carries a \<^verbatim>\<open>lift\<close> object, its lift string is \<^verbatim>\<open>N/A\<close>. When some
  variation carries one, the maximum \<open>v\<close> of the lift values of those variations is positive
  and the product \<open>v \<cdot> 100\<close>, as the program computes it in double precision, is below
  \<open>10\<^sup>2\<^sup>1\<close>, the lift string is \<^verbatim>\<open>+\<close>, then that product with one decimal, then \<^verbatim>\<open>%\<close>: the
  decimal numeral printed is the tenth nearest to the product, the upper one on a tie. The
  maximum is the plain maximum of the set of values: nothing else orders the variations.
\<close>

theorem C4_lift_string:
  "t_metrics (transformOptimizelyResults pf r) = map (transformMetric pf) (or_metrics r)
   \<and> ((\<forall>(k, res)\<in>set (mr_results m). vr_lift res = None) \<longrightarrow> m_lift (transformMetric pf m) = ''N/A'')
   \<and> ((\<exists>(k, res)\<in>set (mr_results m). vr_lift res \<noteq> None)
        \<and> v = Max {x. \<exists>k res l. (k, res) \<in> set (mr_results m) \<and> vr_lift res = Some l
                         \<and> round_double (lift_value l) = x}
        \<and> 0 < v \<and> mul_double v 100 < 10 ^ 21 \<longrightarrow>
        (\<exists>n. m_lift (transformMetric pf m) =
                ''+'' @ show_nat (n div 10) @ ''.'' @ show_nat (n mod 10) @ ''%''
             \<and> of_nat n / 10 - 1 / 20 \<le> mul_double v 100
             \<and> mul_double v 100 < of_nat n / 10 + 1 / 20))"
proof -
  have 1: "t_metrics (transformOptimizelyResults pf r) = map (transformMetric pf) (or_metrics r)"
    by (simp add: transformOptimizelyResults_def Let_def)
  have 2: "(\<forall>(k, res)\<in>set (mr_results m). vr_lift res = None) \<longrightarrow> m_lift (transformMetric pf m) = ''N/A''"
  proof
    assume "\<forall>(k, res)\<in>set (mr_results m). vr_lift res = None"
    then have "liftValues (mr_results m) = []" by (simp add: liftValues_empty)
    then show "m_lift (transformMetric pf m) = ''N/A''"
      by (simp add: transformMetric_def bestLift_def liftStr_def)
  qed
  have 3: "(\<exists>(k, res)\<in>set (mr_results m). vr_lift res \<noteq> None)
        \<and> v = Max {x. \<exists>k res l. (k, res) \<in> set (mr_results m) \<and> vr_lift res = Some l
                         \<and> round_double (lift_value l) = x}
        \<and> 0 < v \<and> mul_double v 100 < 10 ^ 21 \<longrightarrow>
        (\<exists>n. m_lift (transformMetric pf m) =
                ''+'' @ show_nat (n div 10) @ ''.'' @ show_nat (n mod 10) @ ''%''
             \<and> of_nat n / 10 - 1 / 20 \<le> mul_double v 100
             \<and> mul_double v 100 < of_nat n / 10 + 1 / 20)"
  proof (intro impI, elim conjE)
    assume some: "\<exists>(k, res)\<in>set (mr_results m). vr_lift res \<noteq> None"
      and v: "v = Max {x. \<exists>k res l. (k, res) \<in> set (mr_results m) \<and> vr_lift res = Some l
                         \<and> round_double (lift_value l) = x}"
      and pos: "0 < v" and small: "mul_double v 100 < 10 ^ 21"
    from some have ne: "liftValues (mr_results m) \<noteq> []"
      by (fastforce simp: liftValues_empty)
    have "bestLift (liftValues (mr_results m)) = v"
      using bestLift_Max [OF ne] by (simp add: set_liftValues v)
    then have a: "m_lift (transformMetric pf m) = ''+'' @ toFixed1 pf (mul_double v 100) @ ''%''"
      using pos by (simp add: transformMetric_def liftStr_def)
    have "(0::rat) \<le> v * 100" using pos by simp
    then have "0 \<le> mul_double v 100"
      using round_double_nonneg [of "v * 100"] by (simp add: mul_double_def)
    from toFixed1_nearest [OF this small, of pf] obtain n where
      "toFixed1 pf (mul_double v 100) = show_nat (n div 10) @ ''.'' @ show_nat (n mod 10)"
      "of_nat n / 10 - 1 / 20 \<le> mul_double v 100" "mul_double v 100 < of_nat n / 10 + 1 / 20"
      by blast
    with a show "\<exists>n. m_lift (transformMetric pf m) =
                ''+'' @ show_nat (n div 10) @ ''.'' @ show_nat (n mod 10) @ ''%''
             \<and> of_nat n / 10 - 1 / 20 \<le> mul_double v 100
             \<and> mul_double v 100 < of_nat n / 10 + 1 / 20"
      by auto
  qed
  show ?thesis by (rule conjI [OF 1 conjI [OF 2 3]])
qed

theorem C4_lift_string_witness:
  "t_metrics (transformOptimizelyResults example_platform example_results) =
     [transformMetric example_platform example_metric]
   \<and> m_lift (transformMetric example_platform example_metric_no_lift) = ''N/A''
   \<and> 0 < round_double (6393472022955524 / 10000000000000000)
   \<and> mul_double (round_double (6393472022955524 / 10000000000000000)) 100 < 10 ^ 21
   \<and> m_lift (transformMetric example_platform example_metric) = ''+63.9%''"
proof -
  let ?v = "round_double (6393472022955524 / 10000000000000000)"
  let ?P = "mul_double ?v 100"
  have none: "\<forall>(k, res)\<in>set (mr_results example_metric_no_lift). vr_lift res = None"
    by (simp add: example_metric_no_lift_def)
  have some: "\<exists>(k, res)\<in>set (mr_results example_metric). vr_lift res \<noteq> None"
    by (simp add: example_metric_def)
  have S: "{x. \<exists>k res l. (k, res) \<in> set (mr_results example_metric) \<and> vr_lift res = Some l
                 \<and> round_double (lift_value l) = x} = {?v}"
    unfolding set_liftValues [symmetric] by (simp add: liftValues_def example_metric_def)
  have v: "?v = Max {x. \<exists>k res l. (k, res) \<in> set (mr_results example_metric) \<and> vr_lift res = Some l
                 \<and> round_double (lift_value l) = x}"
    by (simp only: S Max_singleton)
  have pos: "0 < ?v" by code_simp
  have small: "?P < 10 ^ 21" by code_simp
  have lo: "6385 / 100 \<le> ?P" by code_simp
  have hi: "?P < 6395 / 100" by code_simp
  have a: "m_lift (transformMetric example_platform example_metric_no_lift) = ''N/A''"
    using C4_lift_string [where m = example_metric_no_lift and pf = example_platform] none by blast
  from C4_lift_string [where m = example_metric and v = ?v and pf = example_platform] some v pos small
  obtain n where n: "m_lift (transformMetric example_platform example_metric) =
                ''+'' @ show_nat (n div 10) @ ''.'' @ show_nat (n mod 10) @ ''%''"
    "of_nat n / 10 - 1 / 20 \<le> ?P" "?P < of_nat n / 10 + 1 / 20"
    by blast
  from n(2) hi have "(of_nat n :: rat) < 640" by simp
  then have "n < 640" by simp
  moreover from n(3) lo have "638 < (of_nat n :: rat)" by simp
  then have "638 < n" by simp
  ultimately have "n = 639" by simp
  with n(1) have b: "m_lift (transformMetric example_platform example_metric) = ''+63.9%''"
    by (simp add: digit_char_def)
  have c: "t_metrics (transformOptimizelyResults example_platform example_results) =
      [transformMetric example_platform example_metric]"
    using C4_lift_string [where pf = example_platform and r = example_results]
    by (simp add: example_results_def)
  show ?thesis using a b c pos small by simp
qed

text \<open>
  The claim as stated fails where \<^verbatim>\<open>toFixed\<close> leaves the fixed notation. For a lift written
  \<^verbatim>\<open>1e19\<close> in the payload the maximum is \<open>10\<^sup>1\<^sup>9\<close>, the product is \<open>10\<^sup>2\<^sup>1\<close>, and \<^verbatim>\<open>toFixed(1)\<close>
  returns \<^verbatim>\<open>String\<close> of it: the lift string is \<^verbatim>\<open>+1e+21%\<close>, with no decimal, and not
  \<^verbatim>\<open>+1000000000000000000000.0%\<close>.
\<close>

theorem C4_counterexample:
  "liftValues (mr_results example_metric_huge) = [10 ^ 19]
   \<and> mul_double (10 ^ 19) 100 = 10 ^ 21
   \<and> m_lift (transformMetric example_platform example_metric_huge) = ''+1e+21%''"
proof -
  have r19: "round_double 10000000000000000000 = 10000000000000000000" by code_simp
  have r21: "round_double 1000000000000000000000 = 1000000000000000000000" by code_simp
  have 1: "liftValues (mr_results example_metric_huge) = [10 ^ 19]"
    by (simp add: liftValues_def example_metric_huge_def r19)
  have 2: "mul_double (10 ^ 19) 100 = 10 ^ 21"
    by (simp add: mul_double_def r21)
  have 3: "m_lift (transformMetric example_platform example_metric_huge) = ''+1e+21%''"
    using 2 by (simp add: transformMetric_def 1 bestLift_def liftStr_def toFixed1_def
        example_platform_def offline_def example_numberToString_def)
  show ?thesis by (rule conjI [OF 1 conjI [OF 2 3]])
qed

lemma durationDays_exact:
  assumes "s < e" "e - s \<le> 2 ^ 53"
  shows "durationDays (Some s) (Some e) = Some \<lceil>(of_int e - of_int s :: rat) / 86400000\<rceil>"
proof -
  have a: "\<bar>e - s\<bar> \<le> 2 ^ 53" using assms by simp
  have "sub_double (of_int e) (of_int s) = round_double (of_int (e - s))"
    by (simp add: sub_double_def)
  also have "\<dots> = of_int (e - s)" by (rule round_double_of_int [OF a])
  finally have sub: "sub_double (of_int e) (of_int s) = of_int (e - s)" .
  have "\<lceil>round_double (of_int (e - s) / of_int 86400000)\<rceil> = \<lceil>(of_int (e - s) / of_int 86400000 :: rat)\<rceil>"
    by (rule ceiling_round_double_div) (use assms in simp_all)
  then have "\<lceil>div_double (of_int (e - s)) 86400000\<rceil> = \<lceil>(of_int e - of_int s :: rat) / 86400000\<rceil>"
    by (simp add: div_double_def)
  then show ?thesis
    by (simp add: durationDays_def sub)
qed

lemma ceiling_days_bounds:
  assumes "s < e"
  shows "0 \<le> \<lceil>(of_int e - of_int s :: rat) / 86400000\<rceil>
       \<and> (\<lceil>(of_int e - of_int s :: rat) / 86400000\<rceil> - 1) * 86400000 < e - s
       \<and> e - s \<le> \<lceil>(of_int e - of_int s :: rat) / 86400000\<rceil> * 86400000"
proof -
  let ?x = "(of_int (e - s) :: rat) / 86400000"
  let ?d = "\<lceil>?x\<rceil>"
  have x: "0 < ?x" using assms by simp
  have pos: "0 \<le> ?d" using x by (simp add: less_imp_le)
  have "of_int ?d - 1 < ?x" using ceiling_correct [of ?x] by simp
  moreover have "of_int ?d - 1 < ?x \<longleftrightarrow> (of_int ?d - 1) * 86400000 < (of_int (e - s) :: rat)"
    by (rule pos_less_divide_eq) simp
  ultimately have "(of_int ?d - 1) * 86400000 < (of_int (e - s) :: rat)"
    by (simp only:)
  then have "(of_int ((?d - 1) * 86400000) :: rat) < of_int (e - s)" by simp
  then have lo: "(?d - 1) * 86400000 < e - s" by (simp only: of_int_less_iff)
  have "?x \<le> of_int ?d" by (rule le_of_int_ceiling)
  moreover have "?x \<le> of_int ?d \<longleftrightarrow> (of_int (e - s) :: rat) \<le> of_int ?d * 86400000"
    by (rule pos_divide_le_eq) simp
  ultimately have "(of_int (e - s) :: rat) \<le> of_int ?d * 86400000"
    by (simp only:)
  then have "(of_int (e - s) :: rat) \<le> of_int (?d * 86400000)" by simp
  then have hi: "e - s \<le> ?d * 86400000" by (simp only: of_int_le_iff)
  from pos lo hi show ?thesis by simp
qed

text \<open>
  C5 (as the code has it). When both dates of the payload are valid, the start is strictly
  before the end and the two are at most \<open>2\<^sup>5\<^sup>3\<close> milliseconds apart, the number of days \<open>d\<close>
  that the program computes, in double precision, is the ceiling of the difference of the
  two time values in milliseconds over 86400000: the least integer with
  \<open>end - start \<le> d \<cdot> 86400000\<close>. It is not negative, and the duration field is its decimal
  numeral followed by \<^verbatim>\<open> days\<close>.
\<close>

theorem C5_duration_days:
  assumes "time_value pf (or_start_time r) = Some s" "time_value pf (or_end_time r) = Some e"
    and "s < e" "e - s \<le> 2 ^ 53"
  shows "\<exists>d. durationDays (Some s) (Some e) = Some d
           \<and> d = \<lceil>(of_int e - of_int s :: rat) / 86400000\<rceil>
           \<and> 0 \<le> d \<and> (d - 1) * 86400000 < e - s \<and> e - s \<le> d * 86400000
           \<and> t_duration (transformOptimizelyResults pf r) = show_int d @ '' days''"
proof -
  define d where "d = \<lceil>(of_int e - of_int s :: rat) / 86400000\<rceil>"
  have dd: "durationDays (Some s) (Some e) = Some d"
    unfolding d_def by (rule durationDays_exact [OF assms(3,4)])
  from ceiling_days_bounds [OF assms(3)]
  have b: "0 \<le> d" "(d - 1) * 86400000 < e - s" "e - s \<le> d * 86400000"
    by (simp_all add: d_def)
  from b(1,2) assms(4) have "\<bar>d\<bar> \<le> 2 ^ 53" by simp
  then have nt: "number_text pf d = show_int d" by (rule number_text_exact)
  have t: "t_duration (transformOptimizelyResults pf r) = show_int d @ '' days''"
    using assms(1,2) dd nt by (simp add: transformOptimizelyResults_def Let_def duration_text_def)
  show ?thesis
    by (intro exI [of _ d] conjI dd b t) (simp add: d_def)
qed

theorem C5_duration_days_witness:
  "time_value example_platform (or_start_time example_results) = Some 1760524229247
   \<and> time_value example_platform (or_end_time example_results) = Some 1760630742885
   \<and> (1760524229247 :: int) < 1760630742885
   \<and> (1760630742885 :: int) - 1760524229247 \<le> 2 ^ 53
   \<and> durationDays (Some 1760524229247) (Some 1760630742885) = Some 2
   \<and> t_duration (transformOptimizelyResults example_platform example_results) = ''2 days''"
proof -
  have h1: "time_value example_platform (or_start_time example_results) = Some 1760524229247"
    by (simp add: time_value_def example_platform_def offline_def example_results_def
        example_getTime_def)
  have h2: "time_value example_platform (or_end_time example_results) = Some 1760630742885"
    by (simp add: time_value_def example_platform_def offline_def example_results_def
        example_getTime_def)
  have h3: "(1760524229247 :: int) < 1760630742885" by simp
  have h4: "(1760630742885 :: int) - 1760524229247 \<le> 2 ^ 53" by simp
  from C5_duration_days [OF h1 h2 h3 h4] obtain d where
    dd: "durationDays (Some 1760524229247) (Some 1760630742885) = Some d"
    and lo: "(d - 1) * 86400000 < 1760630742885 - 1760524229247"
    and hi: "1760630742885 - 1760524229247 \<le> d * 86400000"
    and t: "t_duration (transformOptimizelyResults example_platform example_results) = show_int d @ '' days''"
    by blast
  from lo hi have d: "d = 2" by simp
  with t have "t_duration (transformOptimizelyResults example_platform example_results) = ''2 days''"
    by (simp add: show_int_def digit_char_def)
  with h1 h2 h3 h4 dd d show ?thesis by simp
qed

text \<open>
  The claim as stated fails for two valid dates that are more than \<open>2\<^sup>5\<^sup>3\<close> milliseconds
  apart. With \<^verbatim>\<open>start_time\<close> \<^verbatim>\<open>-271821-04-20T00:00:00.000Z\<close>, the earliest date
  (\<open>- 8640000000000000\<close>), and \<^verbatim>\<open>end_time\<close> \<^verbatim>\<open>+275760-09-12T00:00:00.001Z\<close>, one millisecond
  into the last day but one (\<open>8639999913600001\<close>), the difference \<open>17279999913600001\<close> is not
  a double and the subtraction gives \<open>17279999913600000\<close>, which is 199999999 days exactly:
  the program computes 199999999, and the ceiling of the quotient is 200000000.
\<close>

theorem C5_counterexample:
  "(- 8640000000000000 :: int) < 8639999913600001
   \<and> sub_double 8639999913600001 (- 8640000000000000) = 17279999913600000
   \<and> durationDays (Some (- 8640000000000000)) (Some 8639999913600001) = Some 199999999
   \<and> \<lceil>(of_int 8639999913600001 - of_int (- 8640000000000000) :: rat) / 86400000\<rceil> = 200000000"
  by code_simp

subsection \<open>The report handler\<close>

lemma example_payload_parses: "JSON_parse example_payload_text = Inr example_payload_json"
  by (simp add: example_payload_text_def example_payload_json_def eval_JSON)

lemma example_payload_typed: "as_results example_payload_json = Some example_payload"
  by (simp add: as_results_def get_prop_def str_of_def int_of_def items_of_def props_of_def num_of_def
      decode_entries_def example_payload_def example_payload_json_def)

lemma JSON_parse_empty: "JSON_parse [] = Inl ''Unexpected end of JSON input''"
  by (simp add: JSON_parse_def)

lemma report_actions_sent:
  assumes "present (recipientEmail ps)" "present (experimentName ps)"
    "optimizelyResultsJson ps = Some js" "JSON_parse js = Inr j" "as_results j = Some t"
  shows "case parse_actions (actions ps) of
           Inl err \<Rightarrow> generateExperimentReport pf ps = Some (Inl err, [])
         | Inr acts \<Rightarrow>
             (\<exists>res rq. generateExperimentReport pf ps = Some (res, [rq])
                \<and> Option.bind (Option.bind (req_body rq) (\<lambda>b. get_prop b ''experimentData''))
                     (\<lambda>d. get_prop d ''actions'') = Some acts)"
proof -
  have js: "js \<noteq> []" using assms(4) by (auto simp: JSON_parse_empty)
  show ?thesis
    using assms js
    by (simp add: generateExperimentReport_def Let_def dispatch_def get_prop_def
        json_of_experimentData_def experimentData_of_def split: sum.splits)
qed

text \<open>
  C6. The \<^verbatim>\<open>actions\<close> parameter: \<^verbatim>\<open>A, B, C\<close> is split at the commas and trimmed;
  \<^verbatim>\<open>["A","B"]\<close> is parsed as JSON; a string that starts with a bracket and is not JSON raises
  \<^verbatim>\<open>Invalid actions format: ...\<close> with the parser's message, and is never split at the commas;
  without the parameter the three default actions are used. The handler sends the
  normalised actions in \<^verbatim>\<open>experimentData.actions\<close>, or raises that error without sending.
\<close>

theorem C6_actions_normalised:
  \<open>parse_actions (Some ''A, B, C'') = Inr (JArr [JStr ''A'', JStr ''B'', JStr ''C''])
   \<and> parse_actions (Some ''["A","B"]'') = Inr (JArr [JStr ''A'', JStr ''B''])
   \<and> (startsWith s ''['' \<and> JSON_parse s = Inl e \<longrightarrow>
        parse_actions (Some s) = Inl (Error (''Invalid actions format: '' @ e)))
   \<and> parse_actions None =
        Inr (JArr [JStr ''Review detailed results in the dashboard'',
                   JStr ''Plan follow-up experiments'',
                   JStr ''Document learnings for future tests''])
   \<and> (present (recipientEmail ps) \<and> present (experimentName ps)
        \<and> optimizelyResultsJson ps = Some js \<and> JSON_parse js = Inr j \<and> as_results j = Some t \<longrightarrow>
        (case parse_actions (actions ps) of
           Inl err \<Rightarrow> generateExperimentReport pf ps = Some (Inl err, [])
         | Inr acts \<Rightarrow>
             (\<exists>res rq. generateExperimentReport pf ps = Some (res, [rq])
                \<and> Option.bind (Option.bind (req_body rq) (\<lambda>b. get_prop b ''experimentData''))
                     (\<lambda>d. get_prop d ''actions'') = Some acts)))\<close>
proof -
  have 1: "parse_actions (Some ''A, B, C'') = Inr (JArr [JStr ''A'', JStr ''B'', JStr ''C''])"
    by (simp add: parse_actions_def startsWith_def trim_def is_ws_def)
  have 2: \<open>parse_actions (Some ''["A","B"]'') = Inr (JArr [JStr ''A'', JStr ''B''])\<close>
    by (simp add: parse_actions_def startsWith_def eval_JSON)
  have 3: "startsWith s ''['' \<and> JSON_parse s = Inl e \<longrightarrow>
        parse_actions (Some s) = Inl (Error (''Invalid actions format: '' @ e))"
    by (auto simp: parse_actions_def JSON_parse_empty startsWith_def)
  have 4: "parse_actions None =
        Inr (JArr [JStr ''Review detailed results in the dashboard'',
                   JStr ''Plan follow-up experiments'',
                   JStr ''Document learnings for future tests''])"
    by (simp add: parse_actions_def default_actions_def)
  have 5: "present (recipientEmail ps) \<and> present (experimentName ps)
        \<and> optimizelyResultsJson ps = Some js \<and> JSON_parse js = Inr j \<and> as_results j = Some t \<longrightarrow>
        (case parse_actions (actions ps) of
           Inl err \<Rightarrow> generateExperimentReport pf ps = Some (Inl err, [])
         | Inr acts \<Rightarrow>
             (\<exists>res rq. generateExperimentReport pf ps = Some (res, [rq])
                \<and> Option.bind (Option.bind (req_body rq) (\<lambda>b. get_prop b ''experimentData''))
                     (\<lambda>d. get_prop d ''actions'') = Some acts))"
    using report_actions_sent [of ps js j t pf] by blast
  show ?thesis by (rule conjI [OF 1 conjI [OF 2 conjI [OF 3 conjI [OF 4 5]]]])
qed

theorem C6_actions_normalised_witness:
  \<open>startsWith ''[A, B]'' ''['' \<and> JSON_parse ''[A, B]'' = Inl ''Unexpected token in JSON''
   \<and> parse_actions (Some ''[A, B]'') = Inl (Error ''Invalid actions format: Unexpected token in JSON'')
   \<and> present (recipientEmail example_report) \<and> present (experimentName example_report)
   \<and> optimizelyResultsJson example_report = Some example_payload_text
   \<and> actions example_report = Some ''A, B, C''
   \<and> (\<exists>res rq. generateExperimentReport example_platform example_report = Some (res, [rq])
          \<and> Option.bind (Option.bind (req_body rq) (\<lambda>b. get_prop b ''experimentData''))
               (\<lambda>d. get_prop d ''actions'') = Some (JArr [JStr ''A'', JStr ''B'', JStr ''C'']))\<close>
proof -
  have h1: "startsWith ''[A, B]'' ''[''" by (simp add: startsWith_def)
  have h2: "JSON_parse ''[A, B]'' = Inl ''Unexpected token in JSON''" by (simp add: eval_JSON)
  have h3: "present (recipientEmail example_report)" "present (experimentName example_report)"
    "optimizelyResultsJson example_report = Some example_payload_text"
    "actions example_report = Some ''A, B, C''"
    by (simp_all add: example_report_def)
  note c = C6_actions_normalised [where s = "''[A, B]''" and e = "''Unexpected token in JSON''"
      and ps = example_report and js = example_payload_text and j = example_payload_json
      and t = example_payload and pf = example_platform]
  have a: "parse_actions (Some ''A, B, C'') = Inr (JArr [JStr ''A'', JStr ''B'', JStr ''C''])"
    using c by blast
  show ?thesis
    using c h1 h2 h3 example_payload_parses example_payload_typed by (simp add: a)
qed

text \<open>
  C10. An empty string for \<^verbatim>\<open>recipientEmail\<close>, \<^verbatim>\<open>experimentName\<close> or \<^verbatim>\<open>optimizelyResultsJson\<close>
  is treated as a missing parameter: the handler raises the required-fields error, whatever
  the other parameters hold, and sends nothing.
\<close>

theorem C10_empty_required_is_missing:
  "recipientEmail ps \<in> {None, Some []} \<or> experimentName ps \<in> {None, Some []}
     \<or> optimizelyResultsJson ps \<in> {None, Some []} \<Longrightarrow>
   generateExperimentReport pf ps =
     Some (Inl (Error ''recipientEmail, experimentName, and optimizelyResultsJson are required fields''), [])"
  by (auto simp: generateExperimentReport_def required_fields_def)

theorem C10_empty_required_is_missing_witness:
  "experimentName (example_report\<lparr>experimentName := Some []\<rparr>) = Some []
   \<and> generateExperimentReport example_platform (example_report\<lparr>experimentName := Some []\<rparr>) =
     Some (Inl (Error ''recipientEmail, experimentName, and optimizelyResultsJson are required fields''), [])
   \<and> generateExperimentReport example_platform (example_report\<lparr>recipientEmail := Some []\<rparr>) =
     Some (Inl (Error ''recipientEmail, experimentName, and optimizelyResultsJson are required fields''), [])
   \<and> generateExperimentReport example_platform (example_report\<lparr>optimizelyResultsJson := Some []\<rparr>) =
     Some (Inl (Error ''recipientEmail, experimentName, and optimizelyResultsJson are required fields''), [])
   \<and> generateExperimentReport example_platform (example_report\<lparr>optimizelyResultsJson := None\<rparr>) =
     Some (Inl (Error ''recipientEmail, experimentName, and optimizelyResultsJson are required fields''), [])"
  using C10_empty_required_is_missing [of "example_report\<lparr>experimentName := Some []\<rparr>" example_platform]
    C10_empty_required_is_missing [of "example_report\<lparr>recipientEmail := Some []\<rparr>" example_platform]
    C10_empty_required_is_missing [of "example_report\<lparr>optimizelyResultsJson := Some []\<rparr>" example_platform]
    C10_empty_required_is_missing [of "example_report\<lparr>optimizelyResultsJson := None\<rparr>" example_platform]
  by simp

end
